theory Spec2Isabelle
  imports Complex_Main
begin

section \<open>JavaScript strings and numbers used by the reader\<close>

text \<open>
  Strings are lists of characters; a character is a code unit below 256, so that the
  strings of the model are the strings of JavaScript written in Latin-1 (U+0000 to
  U+00FF). White space is what \<^verbatim>\<open>String.prototype.trim\<close> and the numeric parsers strip:
  among these characters TAB, LF, VT, FF, CR, the space and the no-break space U+00A0.
\<close>

definition isWhiteSpace :: "char \<Rightarrow> bool" where
  "isWhiteSpace c =
     (c \<in> set [CHR 0x09, CHR 0x0A, CHR 0x0B, CHR 0x0C, CHR 0x0D, CHR '' '', CHR 0xA0])"

definition trimStart :: "string \<Rightarrow> string" where
  "trimStart s = dropWhile isWhiteSpace s"

definition trim :: "string \<Rightarrow> string" where
  "trim s = rev (dropWhile isWhiteSpace (rev (dropWhile isWhiteSpace s)))"

definition upperLetters :: string where
  "upperLetters = ''ABCDEFGHIJKLMNOPQRSTUVWXYZ''"

definition lowerLetters :: string where
  "lowerLetters = ''abcdefghijklmnopqrstuvwxyz''"

text \<open>
  \<^verbatim>\<open>String.prototype.toLowerCase\<close>. Below U+0100 the characters with a lower-case
  mapping are the letters A to Z and the letters U+00C0 to U+00DE without the
  multiplication sign U+00D7; each maps to the one character 32 places further, so
  that the string is mapped character by character.
\<close>

definition upperLatin :: string where
  "upperLatin =
     [CHR 0xC0, CHR 0xC1, CHR 0xC2, CHR 0xC3, CHR 0xC4, CHR 0xC5, CHR 0xC6, CHR 0xC7,
      CHR 0xC8, CHR 0xC9, CHR 0xCA, CHR 0xCB, CHR 0xCC, CHR 0xCD, CHR 0xCE, CHR 0xCF,
      CHR 0xD0, CHR 0xD1, CHR 0xD2, CHR 0xD3, CHR 0xD4, CHR 0xD5, CHR 0xD6,
      CHR 0xD8, CHR 0xD9, CHR 0xDA, CHR 0xDB, CHR 0xDC, CHR 0xDD, CHR 0xDE]"

definition lowerLatin :: string where
  "lowerLatin =
     [CHR 0xE0, CHR 0xE1, CHR 0xE2, CHR 0xE3, CHR 0xE4, CHR 0xE5, CHR 0xE6, CHR 0xE7,
      CHR 0xE8, CHR 0xE9, CHR 0xEA, CHR 0xEB, CHR 0xEC, CHR 0xED, CHR 0xEE, CHR 0xEF,
      CHR 0xF0, CHR 0xF1, CHR 0xF2, CHR 0xF3, CHR 0xF4, CHR 0xF5, CHR 0xF6,
      CHR 0xF8, CHR 0xF9, CHR 0xFA, CHR 0xFB, CHR 0xFC, CHR 0xFD, CHR 0xFE]"

definition toLowerChar :: "char \<Rightarrow> char" where
  "toLowerChar c =
     (case map_of (zip (upperLetters @ upperLatin) (lowerLetters @ lowerLatin)) c of
        Some d \<Rightarrow> d
      | None \<Rightarrow> c)"

definition toLowerCase :: "string \<Rightarrow> string" where
  "toLowerCase s = map toLowerChar s"

fun startsWith :: "string \<Rightarrow> string \<Rightarrow> bool" where
  "startsWith s [] = True"
| "startsWith [] (p # ps) = False"
| "startsWith (c # cs) (p # ps) = (c = p \<and> startsWith cs ps)"

definition endsWith :: "string \<Rightarrow> string \<Rightarrow> bool" where
  "endsWith s p = startsWith (rev s) (rev p)"

text \<open>\<^verbatim>\<open>s.split(c)\<close> for a one-character separator: never the empty list.\<close>

fun split_str :: "char \<Rightarrow> string \<Rightarrow> string list" where
  "split_str sep [] = [[]]"
| "split_str sep (c # cs) =
     (if c = sep then [] # split_str sep cs
      else (case split_str sep cs of
              [] \<Rightarrow> [[c]]
            | w # ws \<Rightarrow> (c # w) # ws))"

fun join_str :: "string \<Rightarrow> string list \<Rightarrow> string" where
  "join_str sep [] = []"
| "join_str sep [w] = w"
| "join_str sep (w # v # ws) = w @ sep @ join_str sep (v # ws)"

text \<open>\<^verbatim>\<open>s.slice(1, -1)\<close>: the string without its first and its last character.\<close>

definition slice_1_m1 :: "string \<Rightarrow> string" where
  "slice_1_m1 s = butlast (tl s)"

subsection \<open>Numbers\<close>

text \<open>
  A result of \<^verbatim>\<open>parseInt\<close> is an integer or NaN (\<open>jsint\<close>); a result of
  \<^verbatim>\<open>parseFloat\<close> is NaN, an infinity or a finite value (\<open>jsnum\<close>). Finite values are
  kept exact: the rounding to the nearest double is not part of the model. A decimal
  literal of magnitude \<open>2 ^ 1024 - 2 ^ 970\<close> or more, which rounds to no finite double,
  is an infinity for \<^verbatim>\<open>parseFloat\<close>; the integers that \<^verbatim>\<open>parseInt\<close> reads are not
  bounded.
\<close>

datatype jsint = IntNaN | IntVal int

datatype jsnum = NaN | PosInf | NegInf | Fin rat

definition decDigits :: string where
  "decDigits = ''0123456789''"

definition hexDigits :: "(char \<times> nat) list" where
  "hexDigits =
     [(CHR ''0'', 0), (CHR ''1'', 1), (CHR ''2'', 2), (CHR ''3'', 3), (CHR ''4'', 4), (CHR ''5'', 5),
      (CHR ''6'', 6), (CHR ''7'', 7), (CHR ''8'', 8), (CHR ''9'', 9), (CHR ''a'', 10), (CHR ''b'', 11),
      (CHR ''c'', 12), (CHR ''d'', 13), (CHR ''e'', 14), (CHR ''f'', 15), (CHR ''A'', 10), (CHR ''B'', 11),
      (CHR ''C'', 12), (CHR ''D'', 13), (CHR ''E'', 14), (CHR ''F'', 15)]"

definition isDigit :: "char \<Rightarrow> bool" where
  "isDigit c = (c \<in> set decDigits)"

definition digitVal :: "char \<Rightarrow> nat" where
  "digitVal c = (case map_of hexDigits c of Some d \<Rightarrow> d | None \<Rightarrow> 0)"

definition isHexDigit :: "char \<Rightarrow> bool" where
  "isHexDigit c = (map_of hexDigits c \<noteq> None)"

definition digitsVal :: "nat \<Rightarrow> string \<Rightarrow> nat" where
  "digitsVal radix ds = foldl (\<lambda>a c. radix * a + digitVal c) 0 ds"

text \<open>
  \<^verbatim>\<open>parseInt(s)\<close> without a radix: leading white space and one sign are dropped, a
  prefix \<^verbatim>\<open>0x\<close> selects radix 16, the longest run of digits is read, and no digit at
  all gives NaN.
\<close>

definition parseInt :: "string \<Rightarrow> jsint" where
  "parseInt s =
     (let t = trimStart s;
          neg = startsWith t ''-'';
          u = (if startsWith t ''-'' \<or> startsWith t ''+'' then tl t else t);
          hex = (startsWith u ''0x'' \<or> startsWith u ''0X'');
          v = (if hex then drop 2 u else u);
          z = (if hex then takeWhile isHexDigit v else takeWhile isDigit v);
          n = int (digitsVal (if hex then 16 else 10) z)
      in if z = [] then IntNaN else IntVal (if neg then - n else n))"

text \<open>
  \<^verbatim>\<open>parseFloat(s)\<close>: leading white space is dropped and the longest prefix that is a
  decimal literal is read: a sign, then \<^verbatim>\<open>Infinity\<close> or digits with an optional
  fraction and an optional exponent. No such prefix gives NaN.
\<close>

definition exponentPart :: "string \<Rightarrow> int" where
  "exponentPart r =
     (if startsWith r ''e'' \<or> startsWith r ''E'' then
        (let r1 = tl r;
             eneg = startsWith r1 ''-'';
             r2 = (if startsWith r1 ''-'' \<or> startsWith r1 ''+'' then tl r1 else r1);
             ed = takeWhile isDigit r2
         in if ed = [] then 0
            else (if eneg then - int (digitsVal 10 ed) else int (digitsVal 10 ed)))
      else 0)"

definition scale10 :: "rat \<Rightarrow> int \<Rightarrow> rat" where
  "scale10 m e = (if 0 \<le> e then m * 10 ^ nat e else m / 10 ^ nat (- e))"

definition overflows :: "rat \<Rightarrow> bool" where
  "overflows v = (2 ^ 1024 - 2 ^ 970 \<le> v)"

definition parseFloat :: "string \<Rightarrow> jsnum" where
  "parseFloat s =
     (let t = trimStart s;
          neg = startsWith t ''-'';
          u = (if startsWith t ''-'' \<or> startsWith t ''+'' then tl t else t)
      in if startsWith u ''Infinity'' then (if neg then NegInf else PosInf)
         else
           (let ip = takeWhile isDigit u;
                r0 = dropWhile isDigit u;
                dot = startsWith r0 ''.'';
                fp = (if dot then takeWhile isDigit (tl r0) else []);
                r1 = (if dot then dropWhile isDigit (tl r0) else r0);
                m = of_nat (digitsVal 10 (ip @ fp)) / 10 ^ length fp;
                v = scale10 m (exponentPart r1)
            in if ip = [] \<and> fp = [] then NaN
               else if overflows v then (if neg then NegInf else PosInf)
               else Fin (if neg then - v else v)))"

section \<open>Errors\<close>

text \<open>
  An exception of the program is a value: the result of a function that may throw is
  \<open>error + 'a\<close>. \<open>IOError\<close> is a failed \<^verbatim>\<open>fs.readFileSync\<close>, \<open>TypeError\<close> and
  \<open>RangeError\<close> are the exceptions of the language.
\<close>

datatype error = IOError string | TypeError | RangeError

section \<open>The world outside\<close>

text \<open>
  What the program reads: \<open>dirname\<close> and \<open>pathJoin\<close> are \<^verbatim>\<open>path.dirname\<close> and
  \<^verbatim>\<open>path.join\<close>, \<open>readFileSync\<close> gives the content of a file or the message of the
  exception, \<open>base64\<close> is \<^verbatim>\<open>Buffer.toString('base64')\<close>.
\<close>

record files =
  dirname :: "string \<Rightarrow> string"
  pathJoin :: "string \<Rightarrow> string \<Rightarrow> string"
  readFileSync :: "string \<Rightarrow> string + string"
  base64 :: "string \<Rightarrow> string"

section \<open>SpiraConfig\<close>

text \<open>
  The fields the constructor sets up, as the rest of the program reads them. The two
  lookup tables are objects used as dictionaries: maps from key to id. A key that is
  not in a table reads as \<open>None\<close>. (In JavaScript the two names \<^verbatim>\<open>constructor\<close> and
  \<^verbatim>\<open>__proto__\<close> read an inherited object instead: no qualified test name can be one of
  them, since it contains a dot, and for a suite of that name the inherited object
  makes \<^verbatim>\<open>sendResult\<close> fall back to the configured test set, as a missing key does.)
\<close>

record config =
  url :: string
  username :: string
  token :: string
  project_id :: jsint
  release_id :: jsint
  test_set_id :: jsint
  create_build :: bool
  test_case_ids :: "string \<rightharpoonup> jsint"
  test_set_ids :: "string \<rightharpoonup> jsint"

definition newConfig :: config where
  "newConfig =
     \<lparr>url = '''', username = '''', token = '''',
      project_id = IntVal (- 1), release_id = IntVal (- 1), test_set_id = IntVal (- 1),
      create_build = False,
      test_case_ids = Map.empty, test_set_ids = Map.empty\<rparr>"

subsection \<open>The object while the file is loaded\<close>

text \<open>
  \<^verbatim>\<open>loadConfig\<close> assigns properties by name (\<^verbatim>\<open>this[trimmedKey] = value\<close>): a line of
  the file can create a property and can replace the value of any property, a lookup
  table included. While the file is loaded the configuration is therefore the map from
  the names of its own properties to their values: a string, a number, a boolean or a
  lookup table.
\<close>

datatype fieldValue =
    TextField string
  | NumberField jsint
  | BoolField bool
  | TableField "string \<rightharpoonup> jsint"

type_synonym configObject = "string \<rightharpoonup> fieldValue"

text \<open>The object the constructor has set up when it calls \<^verbatim>\<open>loadConfig\<close>.\<close>

definition newObject :: configObject where
  "newObject =
     [''url'' \<mapsto> TextField '''', ''username'' \<mapsto> TextField '''', ''token'' \<mapsto> TextField '''',
      ''project_id'' \<mapsto> NumberField (IntVal (- 1)),
      ''release_id'' \<mapsto> NumberField (IntVal (- 1)),
      ''test_set_id'' \<mapsto> NumberField (IntVal (- 1)),
      ''create_build'' \<mapsto> BoolField False,
      ''test_case_ids'' \<mapsto> TableField Map.empty,
      ''test_set_ids'' \<mapsto> TableField Map.empty]"

text \<open>
  \<^verbatim>\<open>this[key] = value\<close> for a string, a number or a boolean. The name \<^verbatim>\<open>__proto__\<close>
  is the accessor inherited from \<^verbatim>\<open>Object.prototype\<close>, whose setter ignores a value
  that is neither an object nor \<^verbatim>\<open>null\<close>: the assignment changes nothing. Every other
  name becomes (or stays) an own property with the new value.
\<close>

definition setField :: "configObject \<Rightarrow> string \<Rightarrow> fieldValue \<Rightarrow> configObject" where
  "setField obj key val = (if key = ''__proto__'' then obj else obj(key \<mapsto> val))"

text \<open>
  \<^verbatim>\<open>this.table[key] = id\<close>, where \<open>table\<close> is \<^verbatim>\<open>test_case_ids\<close> or
  \<^verbatim>\<open>test_set_ids\<close>. On a lookup table the entry is set, except that the key
  \<^verbatim>\<open>__proto__\<close> is ignored as above. When an earlier line has replaced the table by a
  string, the assignment is one to a property of a primitive value: in the strict mode
  of a class body it throws a TypeError, except again for \<^verbatim>\<open>__proto__\<close>, for which the
  inherited setter returns without an effect. (The property is never a number, a
  boolean or missing, since only the fixed names \<^verbatim>\<open>create_build\<close>, \<^verbatim>\<open>project_id\<close>,
  \<^verbatim>\<open>release_id\<close> and \<^verbatim>\<open>test_set_id\<close> get such values and no property is deleted; the
  model answers for these as JavaScript would.)
\<close>

definition putId :: "configObject \<Rightarrow> string \<Rightarrow> string \<Rightarrow> jsint \<Rightarrow> error + configObject" where
  "putId obj table key n =
     (case obj table of
        Some (TableField ids) \<Rightarrow>
          if key = ''__proto__'' then Inr obj
          else Inr (obj(table \<mapsto> TableField (ids(key \<mapsto> n))))
      | Some (TextField s) \<Rightarrow> if key = ''__proto__'' then Inr obj else Inl TypeError
      | Some (NumberField i) \<Rightarrow> if key = ''__proto__'' then Inr obj else Inl TypeError
      | Some (BoolField b) \<Rightarrow> if key = ''__proto__'' then Inr obj else Inl TypeError
      | None \<Rightarrow> Inl TypeError)"

text \<open>The body of the loop of \<^verbatim>\<open>loadConfig\<close> below the split of the line at \<^verbatim>\<open>=\<close>.\<close>

definition storeLine :: "string \<Rightarrow> configObject \<Rightarrow> string \<Rightarrow> string \<Rightarrow> error + configObject" where
  "storeLine currentSection obj trimmedKey val =
     (if currentSection = ''credentials'' then
        (if trimmedKey = ''create_build''
           then Inr (obj(''create_build'' \<mapsto> BoolField (toLowerCase val = ''true'')))
         else if trimmedKey = ''project_id'' \<or> trimmedKey = ''release_id''
                 \<or> trimmedKey = ''test_set_id''
           then Inr (setField obj trimmedKey (NumberField (parseInt val)))
         else Inr (setField obj trimmedKey (TextField val)))
      else if currentSection = ''test_cases''
        then putId obj ''test_case_ids'' (toLowerCase trimmedKey) (parseInt val)
      else if currentSection = ''test_sets''
        then putId obj ''test_set_ids'' (toLowerCase trimmedKey) (parseInt val)
      else Inr obj)"

text \<open>The loop over the lines, with the current section and the object so far.\<close>

fun loadLines :: "string \<Rightarrow> configObject \<Rightarrow> string list \<Rightarrow> error + configObject" where
  "loadLines currentSection obj [] = Inr obj"
| "loadLines currentSection obj (l # ls) =
     (let line = trim l in
      if line = [] \<or> startsWith line ''#'' then loadLines currentSection obj ls
      else if startsWith line ''['' \<and> endsWith line '']''
        then loadLines (slice_1_m1 line) obj ls
      else
        (case split_str (CHR ''='') line of
           [] \<Rightarrow> loadLines currentSection obj ls
         | key # valueParts \<Rightarrow>
             if key = [] \<or> valueParts = [] then loadLines currentSection obj ls
             else
               (case storeLine currentSection obj (trim key)
                       (trim (join_str ''='' valueParts)) of
                  Inl e \<Rightarrow> Inl e
                | Inr obj' \<Rightarrow> loadLines currentSection obj' ls)))"

definition loadConfig :: "files \<Rightarrow> string \<Rightarrow> error + configObject" where
  "loadConfig fs configFile =
     (case readFileSync fs configFile of
        Inl msg \<Rightarrow> Inl (IOError msg)
      | Inr content \<Rightarrow> loadLines '''' newObject (split_str (CHR 0x0A) content))"

text \<open>
  The loaded object as the record above: the values of its nine fields, when each has
  the type the constructor gave it. (The three credentials always are strings, the
  three ids numbers and \<^verbatim>\<open>create_build\<close> a boolean; a lookup table is a table unless
  a line of the file has replaced it.)
\<close>

definition configOf :: "configObject \<Rightarrow> config option" where
  "configOf obj =
     (case obj ''url'' of Some (TextField u) \<Rightarrow>
     (case obj ''username'' of Some (TextField n) \<Rightarrow>
     (case obj ''token'' of Some (TextField t) \<Rightarrow>
     (case obj ''project_id'' of Some (NumberField p) \<Rightarrow>
     (case obj ''release_id'' of Some (NumberField r) \<Rightarrow>
     (case obj ''test_set_id'' of Some (NumberField s) \<Rightarrow>
     (case obj ''create_build'' of Some (BoolField b) \<Rightarrow>
     (case obj ''test_case_ids'' of Some (TableField cases) \<Rightarrow>
     (case obj ''test_set_ids'' of Some (TableField sets) \<Rightarrow>
        Some \<lparr>url = u, username = n, token = t, project_id = p, release_id = r,
              test_set_id = s, create_build = b, test_case_ids = cases, test_set_ids = sets\<rparr>
      | _ \<Rightarrow> None) | _ \<Rightarrow> None) | _ \<Rightarrow> None) | _ \<Rightarrow> None) | _ \<Rightarrow> None)
      | _ \<Rightarrow> None) | _ \<Rightarrow> None) | _ \<Rightarrow> None) | _ \<Rightarrow> None)"

section \<open>The parsed report\<close>

text \<open>
  \<^verbatim>\<open>xml2js\<close> with \<^verbatim>\<open>explicitArray: false, mergeAttrs: true\<close> turns an element into a
  string when it has text only (the empty string when it has neither text, attributes
  nor children), into an object when it has attributes or children (the attributes and
  the children are its properties, the text is the property \<^verbatim>\<open>_\<close>), and repeated
  children into an array. A property that is missing reads as \<^verbatim>\<open>undefined\<close>: \<open>None\<close>.
  An object is the list of its own properties; none of the names the program reads
  (\<^verbatim>\<open>name\<close>, \<^verbatim>\<open>message\<close>, \<^verbatim>\<open>_\<close>, \<^verbatim>\<open>value\<close>, ...) is inherited by a string, an array
  or an object, so that a missing property of any value reads as \<open>None\<close>.
\<close>

datatype xval = XStr string | XObj "(string \<times> xval) list" | XArr "xval list"

fun getProp :: "xval \<Rightarrow> string \<Rightarrow> xval option" where
  "getProp (XObj kvs) k = map_of kvs k"
| "getProp (XStr s) k = None"
| "getProp (XArr xs) k = None"

fun truthy :: "xval \<Rightarrow> bool" where
  "truthy (XStr s) = (s \<noteq> [])"
| "truthy (XObj kvs) = True"
| "truthy (XArr xs) = True"

text \<open>\<open>truthyProp x k\<close> is the value of \<^verbatim>\<open>x.k\<close> when \<^verbatim>\<open>if (x.k)\<close> takes the branch.\<close>

definition truthyProp :: "xval \<Rightarrow> string \<Rightarrow> xval option" where
  "truthyProp x k =
     (case getProp x k of
        None \<Rightarrow> None
      | Some v \<Rightarrow> if truthy v then Some v else None)"

text \<open>\<^verbatim>\<open>a || b\<close> where \<^verbatim>\<open>a\<close> may be undefined.\<close>

definition orElse :: "xval option \<Rightarrow> xval \<Rightarrow> xval" where
  "orElse a b =
     (case a of
        None \<Rightarrow> b
      | Some v \<Rightarrow> if truthy v then v else b)"

text \<open>
  The conversion to a string, as in a template literal and in \<^verbatim>\<open>+=\<close> with a string:
  an object prints as \<^verbatim>\<open>[object Object]\<close>, an array as its elements joined by commas.
  (An element with a child or an attribute named \<^verbatim>\<open>toString\<close> or \<^verbatim>\<open>valueOf\<close> would
  print differently; such reports are not covered.)
\<close>

fun toString :: "xval \<Rightarrow> string" where
  "toString (XStr s) = s"
| "toString (XObj kvs) = ''[object Object]''"
| "toString (XArr xs) = join_str '','' (map toString xs)"

definition template :: "xval option \<Rightarrow> string" where
  "template v = (case v of None \<Rightarrow> ''undefined'' | Some x \<Rightarrow> toString x)"

definition newline :: string where
  "newline = [CHR 0x0A]"

section \<open>Requests and the console\<close>

text \<open>
  An id that comes back from the server, or the program's own \<^verbatim>\<open>-1\<close> and
  \<^verbatim>\<open>null\<close>: the server's ids are taken to be numbers, \<^verbatim>\<open>null\<close>, or missing from the
  response.
\<close>

datatype idval = IdUndefined | IdNull | IdNum jsint

text \<open>The values of a JSON request body.\<close>

datatype jval =
    JNull
  | JNumber jsint
  | JString string
  | JXml xval
  | JId idval
  | JObject "(string \<times> jval) list"
  | JArray "jval list"

text \<open>
  The four REST resources, after the prefix \<^verbatim>\<open>/Services/v6_0/RestService.svc/\<close>:
  \<^verbatim>\<open>projects/{p}/releases/{r}/builds\<close>, \<^verbatim>\<open>projects/{p}/test-runs/record\<close>,
  \<^verbatim>\<open>projects/{p}/documents/file\<close> and \<^verbatim>\<open>projects/{p}/documents/url\<close>.
\<close>

datatype endpoint =
    Builds jsint jsint
  | TestRunsRecord jsint
  | DocumentsFile jsint
  | DocumentsUrl jsint

record request =
  req_spiraUrl :: string
  req_endpoint :: endpoint
  req_username :: string
  req_api_key :: string
  req_body :: "(string \<times> jval) list"

text \<open>
  The outcome of \<^verbatim>\<open>axios.post\<close>: \<open>Replied v\<close> is a response whose data holds the id
  \<open>v\<close> under the name the caller reads; \<open>NotFound\<close> is an error with status 404;
  \<open>Failed msg\<close> is any other exception in the \<^verbatim>\<open>try\<close> block, with its message.
\<close>

datatype response = Replied idval | NotFound | Failed string

text \<open>
  The state outside the program: the lines printed by \<^verbatim>\<open>console.log\<close>, the requests
  posted so far, and how many times the clock has been read.
\<close>

record world =
  console :: "string list"
  requests :: "request list"
  ticks :: nat

definition log :: "string \<Rightarrow> world \<Rightarrow> world" where
  "log line w = w\<lparr>console := console w @ [line]\<rparr>"

text \<open>
  The network and the clock: the server answers a request given the earlier ones;
  \<open>clock n\<close> is the time in milliseconds at the \<open>n\<close>-th \<^verbatim>\<open>new Date()\<close>; \<open>isoFormat\<close>
  prints a time as \<^verbatim>\<open>toISOString\<close> does.
\<close>

record net =
  server :: "request list \<Rightarrow> request \<Rightarrow> response"
  clock :: "nat \<Rightarrow> int"
  isoFormat :: "int \<Rightarrow> string"

definition apostrophe :: string where
  "apostrophe = [CHR 0x27]"

section \<open>SpiraResultsParser\<close>

record attachment =
  filename :: string
  binary_data :: string

text \<open>
  One entry of \<^verbatim>\<open>testResults\<close>. The field \<^verbatim>\<open>test_set_id\<close> of the entry is
  \<open>result_test_set_id\<close> here (the configuration has a field of the same name); a link
  \<^verbatim>\<open>{ url }\<close> is its URL.
\<close>

record testResult =
  test_case_id :: jsint
  name :: string
  execution_status_id :: int
  stack_trace :: xval
  message :: xval
  duration_seconds :: jsnum
  assert_count :: jsint
  result_test_set_id :: jsint
  attachments :: "attachment list"
  links :: "string list"

definition readAttachmentFile ::
  "files \<Rightarrow> string \<Rightarrow> string \<Rightarrow> world \<Rightarrow> attachment option \<times> world" where
  "readAttachmentFile fs reportFile filepath w =
     (let reportFolder = dirname fs reportFile;
          fullPath = pathJoin fs reportFolder filepath
      in case readFileSync fs fullPath of
           Inr fileData \<Rightarrow>
             (Some \<lparr>filename = filepath, binary_data = base64 fs fileData\<rparr>, w)
         | Inl msg \<Rightarrow>
             (None,
              log (''Unable to read image file '' @ apostrophe @ filepath @ apostrophe
                   @ '' due to error '' @ apostrophe @ msg @ apostrophe
                   @ '', so skipping attachment.'' @ newline) w))"

subsection \<open>The attachment markers\<close>

text \<open>
  The regular expression \<^verbatim>\<open>/\[\[ATTACHMENT\|([a-zA-Z0-9_\/\\.]+)\]\]/g\<close>. \<open>matchAt\<close>
  matches it at the start of a text and gives the captured path and the length of the
  match; \<open>matchAll\<close> scans from left to right and resumes after each match.
\<close>

definition isPathChar :: "char \<Rightarrow> bool" where
  "isPathChar c =
     (c \<in> set (lowerLetters @ upperLetters @ decDigits @ [CHR ''_'', CHR ''/'', CHR 0x5C, CHR ''.'']))"

definition matchAt :: "string \<Rightarrow> (string \<times> nat) option" where
  "matchAt text =
     (if startsWith text ''[[ATTACHMENT|'' then
        (let r = drop 13 text;
             p = takeWhile isPathChar r
         in if p \<noteq> [] \<and> startsWith (dropWhile isPathChar r) '']]''
            then Some (p, 13 + length p + 2)
            else None)
      else None)"

fun matchFrom :: "nat \<Rightarrow> string \<Rightarrow> string list" where
  "matchFrom skip [] = []"
| "matchFrom (Suc k) (c # cs) = matchFrom k cs"
| "matchFrom 0 (c # cs) =
     (case matchAt (c # cs) of
        Some (p, len) \<Rightarrow> p # matchFrom (len - 1) cs
      | None \<Rightarrow> matchFrom 0 cs)"

definition matchAll :: "string \<Rightarrow> string list" where
  "matchAll text = matchFrom 0 text"

fun readAll ::
  "files \<Rightarrow> string \<Rightarrow> string list \<Rightarrow> attachment list \<times> world \<Rightarrow> attachment list \<times> world" where
  "readAll fs reportFile [] st = st"
| "readAll fs reportFile (filepath # rest) (atts, w) =
     (case readAttachmentFile fs reportFile filepath w of
        (Some attachment, w') \<Rightarrow> readAll fs reportFile rest (atts @ [attachment], w')
      | (None, w') \<Rightarrow> readAll fs reportFile rest (atts, w'))"

definition extractAttachments ::
  "files \<Rightarrow> string \<Rightarrow> string \<Rightarrow> attachment list \<times> world \<Rightarrow> attachment list \<times> world" where
  "extractAttachments fs text reportFile st = readAll fs reportFile (matchAll text) st"

subsection \<open>One test case\<close>

text \<open>
  An id read from a lookup table, when it is truthy: a number other than 0 and NaN.
  \<^verbatim>\<open>!testCaseId\<close> holds exactly when \<open>truthyId testCaseId = None\<close>.
\<close>

fun truthyId :: "jsint option \<Rightarrow> jsint option" where
  "truthyId None = None"
| "truthyId (Some IntNaN) = None"
| "truthyId (Some (IntVal n)) = (if n = 0 then None else Some (IntVal n))"

text \<open>The qualified name \<^verbatim>\<open>`${className}.${testName}`\<close>.\<close>

definition fullNameOf :: "xval \<Rightarrow> string" where
  "fullNameOf testcase =
     (let testName = getProp testcase ''name'';
          className = getProp testcase ''classname''
      in template className @ ''.'' @ template testName)"

text \<open>\<^verbatim>\<open>parseFloat(testcase.time || 0)\<close>.\<close>

definition elapsedTimeOf :: "xval \<Rightarrow> jsnum" where
  "elapsedTimeOf testcase =
     (case truthyProp testcase ''time'' of
        Some t \<Rightarrow> parseFloat (toString t)
      | None \<Rightarrow> Fin 0)"

text \<open>
  The chain of \<^verbatim>\<open>if (testcase.failure) ... else if (testcase.warning) ...\<close>: the
  message, the details, the execution status and the assert count it leaves.
\<close>

definition statusOf :: "xval \<Rightarrow> xval \<times> xval \<times> int \<times> jsint" where
  "statusOf testcase =
     (case truthyProp testcase ''failure'' of
        Some failure \<Rightarrow>
          (orElse (getProp failure ''message'') (XStr ''Test Failed''),
           orElse (getProp failure ''_'') failure, 1, IntVal 1)
      | None \<Rightarrow>
     (case truthyProp testcase ''warning'' of
        Some warning \<Rightarrow>
          (orElse (getProp warning ''message'') (XStr ''Test Warning''),
           orElse (getProp warning ''_'') warning, 6, IntVal 1)
      | None \<Rightarrow>
     (case truthyProp testcase ''error'' of
        Some err \<Rightarrow>
          (orElse (getProp err ''message'') (XStr ''Test Error''),
           orElse (getProp err ''_'') err, 5, IntVal 1)
      | None \<Rightarrow>
     (case truthyProp testcase ''skipped'' of
        Some skipped \<Rightarrow>
          (orElse (getProp skipped ''message'') (XStr ''Test Skipped''),
           orElse (getProp skipped ''_'') (orElse (Some skipped) (XStr '''')), 4, IntVal 1)
      | None \<Rightarrow>
          (XStr ''Success'', XStr (''Nothing Reported'' @ newline), 2, IntVal 0)))))"

text \<open>\<^verbatim>\<open>if (testcase.assertions) assertCount = parseInt(testcase.assertions)\<close>.\<close>

definition assertCountOf :: "xval \<Rightarrow> jsint \<Rightarrow> jsint" where
  "assertCountOf testcase assertCount =
     (case truthyProp testcase ''assertions'' of
        Some a \<Rightarrow> parseInt (toString a)
      | None \<Rightarrow> assertCount)"

text \<open>
  The block for \<^verbatim>\<open>system-out\<close> and the one for \<^verbatim>\<open>system-err\<close>, which differ in the
  property read and in the label. \<^verbatim>\<open>matchAll\<close> is a method of strings only.
\<close>

definition captureOutput ::
  "files \<Rightarrow> string \<Rightarrow> xval \<Rightarrow> string \<Rightarrow> string \<Rightarrow> xval \<times> attachment list \<times> world
     \<Rightarrow> error + xval \<times> attachment list \<times> world" where
  "captureOutput fs reportFile testcase key label st =
     (case st of (details, atts, w) \<Rightarrow>
        (case truthyProp testcase key of
           None \<Rightarrow> Inr st
         | Some systemOut \<Rightarrow>
             (let details' = XStr (toString details @ label @ toString systemOut @ newline)
              in case systemOut of
                   XStr text \<Rightarrow>
                     (case extractAttachments fs text reportFile (atts, w) of
                        (atts', w') \<Rightarrow> Inr (details', atts', w'))
                 | XObj kvs \<Rightarrow> Inl TypeError
                 | XArr xs \<Rightarrow> Inl TypeError)))"

text \<open>
  The body of the loop over the properties, on the details, the attachments, the links
  and the world. \<^verbatim>\<open>startsWith\<close> is a method of strings only.
\<close>

definition processProperty ::
  "files \<Rightarrow> string \<Rightarrow> xval \<Rightarrow> xval \<times> attachment list \<times> string list \<times> world
     \<Rightarrow> error + xval \<times> attachment list \<times> string list \<times> world" where
  "processProperty fs reportFile prop st =
     (case st of (details, atts, lnks, w) \<Rightarrow>
        (let propName = getProp prop ''name'';
             propValue = orElse (getProp prop ''value'') (orElse (getProp prop ''_'') (XStr ''''));
             details' = XStr (toString details @ ''- '' @ template propName @ ''=''
                              @ toString propValue @ newline)
         in case propName of
              Some (XStr pn) \<Rightarrow>
                if startsWith pn ''attachment'' then
                  (case propValue of
                     XStr pv \<Rightarrow>
                       if startsWith pv ''http'' then Inr (details', atts, lnks @ [pv], w)
                       else
                         (case readAttachmentFile fs reportFile pv w of
                            (Some attachment, w') \<Rightarrow> Inr (details', atts @ [attachment], lnks, w')
                          | (None, w') \<Rightarrow> Inr (details', atts, lnks, w'))
                   | XObj kvs \<Rightarrow> Inl TypeError
                   | XArr xs \<Rightarrow> Inl TypeError)
                else Inr (details', atts, lnks, w)
            | Some (XObj kvs) \<Rightarrow> Inl TypeError
            | Some (XArr xs) \<Rightarrow> Inl TypeError
            | None \<Rightarrow> Inl TypeError))"

fun processProperties ::
  "files \<Rightarrow> string \<Rightarrow> xval list \<Rightarrow> xval \<times> attachment list \<times> string list \<times> world
     \<Rightarrow> error + xval \<times> attachment list \<times> string list \<times> world" where
  "processProperties fs reportFile [] st = Inr st"
| "processProperties fs reportFile (prop # props) st =
     (case processProperty fs reportFile prop st of
        Inl e \<Rightarrow> Inl e
      | Inr st' \<Rightarrow> processProperties fs reportFile props st')"

text \<open>
  \<^verbatim>\<open>testcase.properties && testcase.properties.property\<close>, as the list the loop runs
  over.
\<close>

definition propertiesOf :: "xval \<Rightarrow> xval list" where
  "propertiesOf testcase =
     (case truthyProp testcase ''properties'' of
        None \<Rightarrow> []
      | Some properties \<Rightarrow>
          (case truthyProp properties ''property'' of
             None \<Rightarrow> []
           | Some (XArr xs) \<Rightarrow> xs
           | Some p \<Rightarrow> [p]))"

text \<open>
  \<^verbatim>\<open>processTestCase\<close>, on the list of results and the world. The suite name is the
  value of \<^verbatim>\<open>suite.name || suiteName\<close>; \<^verbatim>\<open>toLowerCase\<close> is a method of strings only.
\<close>

definition processTestCase ::
  "config \<Rightarrow> files \<Rightarrow> xval \<Rightarrow> xval \<Rightarrow> string \<Rightarrow> testResult list \<times> world
     \<Rightarrow> error + testResult list \<times> world" where
  "processTestCase cfg fs testcase suiteName reportFile st =
     (case st of (testResults, w) \<Rightarrow>
        (let elapsedTime = elapsedTimeOf testcase;
             fullName = fullNameOf testcase
         in case truthyId (test_case_ids cfg (toLowerCase fullName)) of
              None \<Rightarrow>
                Inr (testResults,
                     log (''Unable to find Spira id tag for test case '' @ apostrophe @ fullName
                          @ apostrophe @ '', so skipping this test case.'') w)
            | Some testCaseId \<Rightarrow>
              (case suiteName of
                 XObj kvs \<Rightarrow> Inl TypeError
               | XArr xs \<Rightarrow> Inl TypeError
               | XStr sn \<Rightarrow>
                   (let testSetId =
                          (case truthyId (test_set_ids cfg (toLowerCase sn)) of
                             Some found \<Rightarrow> found
                           | None \<Rightarrow> IntVal (- 1))
                    in case statusOf testcase of
                         (msg, details, executionStatusId, assertCount0) \<Rightarrow>
                    (let assertCount = assertCountOf testcase assertCount0
                     in case captureOutput fs reportFile testcase ''system-out'' ''System Out: ''
                               (details, [], w) of
                          Inl e \<Rightarrow> Inl e
                        | Inr st1 \<Rightarrow>
                    (case captureOutput fs reportFile testcase ''system-err'' ''System Err: ''
                            st1 of
                       Inl e \<Rightarrow> Inl e
                     | Inr (details2, atts2, w2) \<Rightarrow>
                    (case processProperties fs reportFile (propertiesOf testcase)
                            (details2, atts2, [], w2) of
                       Inl e \<Rightarrow> Inl e
                     | Inr (details3, atts3, lnks3, w3) \<Rightarrow>
                         Inr (testResults @
                              [\<lparr>test_case_id = testCaseId,
                                name = fullName,
                                execution_status_id = executionStatusId,
                                stack_trace = details3,
                                message = msg,
                                duration_seconds = elapsedTime,
                                assert_count = assertCount,
                                result_test_set_id = testSetId,
                                attachments = atts3,
                                links = lnks3\<rparr>], w3))))))))"

section \<open>Posting to Spira\<close>

text \<open>Numbers in a template literal: a decimal numeral, or \<^verbatim>\<open>NaN\<close>.\<close>

fun showNat :: "nat \<Rightarrow> string" where
  "showNat n =
     (if n < 10 then [decDigits ! n]
      else showNat (n div 10) @ [decDigits ! (n mod 10)])"

declare showNat.simps [simp del]

fun showInt :: "jsint \<Rightarrow> string" where
  "showInt IntNaN = ''NaN''"
| "showInt (IntVal i) = (if i < 0 then ''-'' @ showNat (nat (- i)) else showNat (nat i))"

fun showId :: "idval \<Rightarrow> string" where
  "showId IdUndefined = ''undefined''"
| "showId IdNull = ''null''"
| "showId (IdNum n) = showInt n"

definition RUNNER_NAME :: string where
  "RUNNER_NAME = ''xUnit (Node.js)''"

text \<open>\<^verbatim>\<open>axios.post\<close>: the request is recorded and the server answers.\<close>

definition post :: "net \<Rightarrow> request \<Rightarrow> world \<Rightarrow> response \<times> world" where
  "post nt rq w = (server nt (requests w) rq, w\<lparr>requests := requests w @ [rq]\<rparr>)"

text \<open>\<^verbatim>\<open>new Date()\<close>: the clock is read once more.\<close>

definition readClock :: "net \<Rightarrow> world \<Rightarrow> int \<times> world" where
  "readClock nt w = (clock nt (ticks w), w\<lparr>ticks := Suc (ticks w)\<rparr>)"

subsection \<open>Dates\<close>

text \<open>
  A date is a time in milliseconds, or invalid. \<^verbatim>\<open>new Date(t)\<close> is invalid when \<open>t\<close>
  is not finite or beyond 8.64e15 in absolute value, and drops the fraction of \<open>t\<close>
  otherwise. \<^verbatim>\<open>toISOString\<close> throws a RangeError (\<open>None\<close>) on an invalid date.
\<close>

datatype date = InvalidDate | ValidDate int

definition newDate :: "jsnum \<Rightarrow> date" where
  "newDate t =
     (case t of
        Fin x \<Rightarrow>
          if \<bar>x\<bar> > 8640000000000000 then InvalidDate
          else ValidDate (if 0 \<le> x then \<lfloor>x\<rfloor> else \<lceil>x\<rceil>)
      | NaN \<Rightarrow> InvalidDate
      | PosInf \<Rightarrow> InvalidDate
      | NegInf \<Rightarrow> InvalidDate)"

text \<open>\<^verbatim>\<open>currentTime.getTime() - duration_seconds * 1000\<close>.\<close>

definition millisBefore :: "int \<Rightarrow> jsnum \<Rightarrow> jsnum" where
  "millisBefore currentTime seconds =
     (case seconds of
        Fin x \<Rightarrow> Fin (of_int currentTime - x * 1000)
      | NaN \<Rightarrow> NaN
      | PosInf \<Rightarrow> NegInf
      | NegInf \<Rightarrow> PosInf)"

definition toISOString :: "net \<Rightarrow> date \<Rightarrow> string option" where
  "toISOString nt d = (case d of InvalidDate \<Rightarrow> None | ValidDate ms \<Rightarrow> Some (isoFormat nt ms))"

text \<open>\<^verbatim>\<open>.replace(/\.\d{3}Z$/, 'Z')\<close>.\<close>

definition stripMillis :: "string \<Rightarrow> string" where
  "stripMillis s =
     (case rev s of
        z # d3 # d2 # d1 # dot # r \<Rightarrow>
          if z = CHR ''Z'' \<and> isDigit d3 \<and> isDigit d2 \<and> isDigit d1 \<and> dot = CHR ''.''
          then rev r @ ''Z'' else s
      | _ \<Rightarrow> s)"

subsection \<open>SpiraBuild\<close>

text \<open>The arguments of the constructor: project id, release id, build status id, name, description.\<close>

datatype spiraBuild = SpiraBuild jsint jsint int string string

fun SpiraBuild_post ::
  "net \<Rightarrow> spiraBuild \<Rightarrow> string \<Rightarrow> string \<Rightarrow> string \<Rightarrow> world \<Rightarrow> idval \<times> world" where
  "SpiraBuild_post nt (SpiraBuild projectId releaseId buildStatusId buildName description)
     spiraUrl spiraUser spiraToken w =
     (let body =
            [(''ProjectId'', JNumber projectId),
             (''BuildStatusId'', JNumber (IntVal buildStatusId)),
             (''ReleaseId'', JNumber releaseId),
             (''Name'', JString buildName),
             (''Description'', JString description)]
      in case post nt
                \<lparr>req_spiraUrl = spiraUrl, req_endpoint = Builds projectId releaseId,
                 req_username = spiraUser, req_api_key = spiraToken, req_body = body\<rparr> w of
           (Replied buildId, w') \<Rightarrow> (buildId, w')
         | (NotFound, w') \<Rightarrow>
             (IdNull,
              log (''Unable to find a matching Spira release of id RL:'' @ showInt releaseId
                   @ '', so not able to post result'') w')
         | (Failed msg, w') \<Rightarrow>
             (IdNull, log (''Unable to create build due to HTTP error: '' @ msg) w'))"

subsection \<open>SpiraTestRun\<close>

text \<open>
  The arguments of the constructor: project id, test case id, test name, stack trace,
  status id, start time, end time, message, release id, test set id, assert count,
  build id. The default \<^verbatim>\<open>buildId = -1\<close> replaces an undefined argument.
\<close>

datatype spiraTestRun =
  SpiraTestRun jsint jsint string xval int date date xval jsint jsint jsint idval

definition newSpiraTestRun ::
  "jsint \<Rightarrow> jsint \<Rightarrow> string \<Rightarrow> xval \<Rightarrow> int \<Rightarrow> date \<Rightarrow> date \<Rightarrow> xval \<Rightarrow> jsint \<Rightarrow> jsint \<Rightarrow> jsint
     \<Rightarrow> idval \<Rightarrow> spiraTestRun" where
  "newSpiraTestRun projectId testCaseId testName stackTrace statusId startTime endTime msg
     releaseId testSetId assertCount buildId =
     SpiraTestRun projectId testCaseId testName stackTrace statusId startTime endTime msg
       releaseId testSetId assertCount
       (if buildId = IdUndefined then IdNum (IntVal (- 1)) else buildId)"

text \<open>The body of the request, given the two dates as printed.\<close>

fun testRunBody :: "spiraTestRun \<Rightarrow> string \<Rightarrow> string \<Rightarrow> (string \<times> jval) list" where
  "testRunBody
     (SpiraTestRun projectId testCaseId testName stackTrace statusId startTime endTime msg
        releaseId testSetId assertCount buildId) startDate endDate =
     [(''TestRunFormatId'', JNumber (IntVal 1)),
      (''StartDate'', JString startDate),
      (''EndDate'', JString endDate),
      (''RunnerName'', JString RUNNER_NAME),
      (''RunnerTestName'', JString testName),
      (''RunnerMessage'', JXml msg),
      (''RunnerStackTrace'', JXml stackTrace),
      (''RunnerAssertCount'', JNumber assertCount),
      (''TestCaseId'', JNumber testCaseId),
      (''ExecutionStatusId'', JNumber (IntVal statusId))]
     @ (if releaseId \<noteq> IntVal (- 1) then
          [(''ReleaseId'', JNumber releaseId)]
          @ (if buildId \<noteq> IdNum (IntVal (- 1)) then [(''BuildId'', JId buildId)] else [])
        else [])
     @ (if testSetId \<noteq> IntVal (- 1) then [(''TestSetId'', JNumber testSetId)] else [])"

text \<open>
  \<^verbatim>\<open>post\<close>: the body is built before the \<^verbatim>\<open>try\<close> block, so the RangeError of
  \<^verbatim>\<open>toISOString\<close> leaves the function (\<open>None\<close>); a failed request gives \<^verbatim>\<open>-1\<close>.
\<close>

fun SpiraTestRun_post ::
  "net \<Rightarrow> spiraTestRun \<Rightarrow> string \<Rightarrow> string \<Rightarrow> string \<Rightarrow> world \<Rightarrow> (idval \<times> world) option" where
  "SpiraTestRun_post nt
     (SpiraTestRun projectId testCaseId testName stackTrace statusId startTime endTime msg
        releaseId testSetId assertCount buildId) spiraUrl spiraUser spiraToken w =
     (case toISOString nt startTime of
        None \<Rightarrow> None
      | Some startIso \<Rightarrow>
     (case toISOString nt endTime of
        None \<Rightarrow> None
      | Some endIso \<Rightarrow>
          (let body =
                 testRunBody
                   (SpiraTestRun projectId testCaseId testName stackTrace statusId startTime
                      endTime msg releaseId testSetId assertCount buildId)
                   (stripMillis startIso) (stripMillis endIso)
           in case post nt
                     \<lparr>req_spiraUrl = spiraUrl, req_endpoint = TestRunsRecord projectId,
                      req_username = spiraUser, req_api_key = spiraToken, req_body = body\<rparr> w of
                (Replied testRunId, w') \<Rightarrow> Some (testRunId, w')
              | (NotFound, w') \<Rightarrow>
                  Some (IdNum (IntVal (- 1)),
                        log (''Unable to find a matching Spira test case of id TC:''
                             @ showInt testCaseId @ '', so not able to post result'') w')
              | (Failed m, w') \<Rightarrow>
                  Some (IdNum (IntVal (- 1)),
                        log (''Unable to send results due to HTTP error: '' @ m) w'))))"

subsection \<open>SpiraDocument\<close>

text \<open>
  The arguments of the constructor: project id, attachment type id (1 is a file, 2 a
  URL), test run id, file name or URL, version name. \<open>binaryData\<close> is \<open>None\<close> for the
  default \<^verbatim>\<open>null\<close>; the empty string is falsy as well.
\<close>

datatype spiraDocument = SpiraDocument jsint int idval string string

fun SpiraDocument_post ::
  "net \<Rightarrow> spiraDocument \<Rightarrow> string \<Rightarrow> string \<Rightarrow> string \<Rightarrow> string option \<Rightarrow> world
     \<Rightarrow> idval \<times> world" where
  "SpiraDocument_post nt (SpiraDocument projectId attachmentTypeId testRunId filenameOrUrl versionName)
     spiraUrl spiraUser spiraToken binaryData w =
     (let withData = (attachmentTypeId = 1 \<and> binaryData \<noteq> None \<and> binaryData \<noteq> Some []);
          body =
            [(''ProjectId'', JNumber projectId),
             (''AttachmentTypeId'', JNumber (IntVal attachmentTypeId)),
             (''FilenameOrUrl'', JString filenameOrUrl),
             (''CurrentVersion'', JString versionName),
             (''AttachedArtifacts'',
              JArray [JObject [(''ArtifactId'', JId testRunId),
                               (''ArtifactTypeId'', JNumber (IntVal 5))]])]
            @ (case binaryData of
                 Some b \<Rightarrow> if withData then [(''BinaryData'', JString b)] else []
               | None \<Rightarrow> [])
      in case post nt
                \<lparr>req_spiraUrl = spiraUrl,
                 req_endpoint = (if withData then DocumentsFile projectId else DocumentsUrl projectId),
                 req_username = spiraUser, req_api_key = spiraToken, req_body = body\<rparr> w of
           (Replied attachmentId, w') \<Rightarrow> (attachmentId, w')
         | (NotFound, w') \<Rightarrow>
             (IdNull,
              log (''Unable to find a matching Spira test run of id TR:'' @ showId testRunId
                   @ '', so not able to post result'') w')
         | (Failed m, w') \<Rightarrow>
             (IdNull, log (''Unable to create document due to HTTP error: '' @ m) w'))"

section \<open>SpiraPostResults\<close>

text \<open>\<^verbatim>\<open>testResult.test_set_id > 0\<close> and \<^verbatim>\<open>testRunId < 1\<close>.\<close>

fun isPositive :: "jsint \<Rightarrow> bool" where
  "isPositive IntNaN = False"
| "isPositive (IntVal i) = (0 < i)"

fun lessThanOne :: "idval \<Rightarrow> bool" where
  "lessThanOne IdUndefined = False"
| "lessThanOne IdNull = True"
| "lessThanOne (IdNum IntNaN) = False"
| "lessThanOne (IdNum (IntVal i)) = (i < 1)"

text \<open>The two loops over the attachments and the links of a result.\<close>

fun postAttachments :: "config \<Rightarrow> net \<Rightarrow> idval \<Rightarrow> attachment list \<Rightarrow> world \<Rightarrow> world" where
  "postAttachments cfg nt testRunId [] w = w"
| "postAttachments cfg nt testRunId (a # as) w =
     postAttachments cfg nt testRunId as
       (snd (SpiraDocument_post nt
               (SpiraDocument (project_id cfg) 1 testRunId (filename a) ''1.0'')
               (url cfg) (username cfg) (token cfg) (Some (binary_data a)) w))"

fun postLinks :: "config \<Rightarrow> net \<Rightarrow> idval \<Rightarrow> string list \<Rightarrow> world \<Rightarrow> world" where
  "postLinks cfg nt testRunId [] w = w"
| "postLinks cfg nt testRunId (link # more_links) w =
     postLinks cfg nt testRunId more_links
       (snd (SpiraDocument_post nt
               (SpiraDocument (project_id cfg) 2 testRunId link ''1.0'')
               (url cfg) (username cfg) (token cfg) None w))"

text \<open>
  \<^verbatim>\<open>sendResult\<close> returns \<^verbatim>\<open>isError\<close>. The only exception that can reach its
  \<^verbatim>\<open>catch\<close> is the RangeError of \<^verbatim>\<open>toISOString\<close>, whose message is
  \<^verbatim>\<open>Invalid time value\<close>.
\<close>

definition sendResult ::
  "config \<Rightarrow> net \<Rightarrow> testResult \<Rightarrow> int \<Rightarrow> idval \<Rightarrow> world \<Rightarrow> bool \<times> world" where
  "sendResult cfg nt testResult currentTime buildId w =
     (let testSetId =
            (if isPositive (result_test_set_id testResult) then result_test_set_id testResult
             else test_set_id cfg);
          startTime = newDate (millisBefore currentTime (duration_seconds testResult));
          testRun =
            newSpiraTestRun (project_id cfg) (test_case_id testResult) (name testResult)
              (stack_trace testResult) (execution_status_id testResult) startTime
              (ValidDate currentTime) (message testResult) (release_id cfg) testSetId
              (assert_count testResult) buildId
      in case SpiraTestRun_post nt testRun (url cfg) (username cfg) (token cfg) w of
           None \<Rightarrow>
             (True,
              log (''Unable to report test case '' @ apostrophe @ name testResult @ apostrophe
                   @ '' to Spira due to error '' @ apostrophe @ ''Invalid time value''
                   @ apostrophe @ ''.'' @ newline) w)
         | Some (testRunId, w1) \<Rightarrow>
             if lessThanOne testRunId then (True, w1)
             else
               (False,
                postLinks cfg nt testRunId (links testResult)
                  (postAttachments cfg nt testRunId (attachments testResult) w1)))"

text \<open>The loop of \<^verbatim>\<open>sendResults\<close> over the results, with the count of successes.\<close>

fun sendAll :: "config \<Rightarrow> net \<Rightarrow> idval \<Rightarrow> testResult list \<Rightarrow> nat \<times> world \<Rightarrow> nat \<times> world" where
  "sendAll cfg nt buildId [] st = st"
| "sendAll cfg nt buildId (testResult # rest) (successCount, w) =
     (case readClock nt w of
        (currentTime, w1) \<Rightarrow>
          (case sendResult cfg nt testResult currentTime buildId w1 of
             (isError, w2) \<Rightarrow>
               sendAll cfg nt buildId rest
                 (if \<not> isError then Suc successCount else successCount, w2)))"

text \<open>The loop that looks for a failed result, with its \<^verbatim>\<open>break\<close>.\<close>

fun buildStatusOf :: "testResult list \<Rightarrow> int" where
  "buildStatusOf [] = 2"
| "buildStatusOf (testResult # rest) =
     (if execution_status_id testResult = 1 then 1 else buildStatusOf rest)"

text \<open>A line of the build's description, when the root has the property.\<close>

definition describe :: "xval \<Rightarrow> string \<Rightarrow> string \<Rightarrow> string" where
  "describe testsuites key label =
     (case truthyProp testsuites key of
        Some v \<Rightarrow> label @ toString v @ newline
      | None \<Rightarrow> [])"

definition createBuild :: "config \<Rightarrow> net \<Rightarrow> testResult list \<Rightarrow> xval \<Rightarrow> world \<Rightarrow> idval \<times> world" where
  "createBuild cfg nt testResults testsuites w =
     (let w0 = log (''Creating new build in Spira at URL '' @ apostrophe @ url cfg
                    @ apostrophe @ ''.'') w;
          buildStatusId = buildStatusOf testResults
      in case readClock nt w0 of
           (currentTime, w1) \<Rightarrow>
             (let stamp = isoFormat nt currentTime;
                  buildName =
                    (case truthyProp testsuites ''name'' of
                       Some n \<Rightarrow> toString n @ '' Build '' @ stamp
                     | None \<Rightarrow> RUNNER_NAME @ '' Build '' @ stamp);
                  description =
                    describe testsuites ''tests'' ''# Tests: ''
                    @ describe testsuites ''failures'' ''# Failures: ''
                    @ describe testsuites ''errors'' ''# Errors: ''
                    @ describe testsuites ''skipped'' ''# Skipped: ''
                    @ describe testsuites ''assertions'' ''# Assertions: ''
              in SpiraBuild_post nt
                   (SpiraBuild (project_id cfg) (release_id cfg) buildStatusId buildName description)
                   (url cfg) (username cfg) (token cfg) w1))"

text \<open>
  \<^verbatim>\<open>sendResults\<close>. No exception reaches the \<^verbatim>\<open>catch\<close> around the loop, since
  \<^verbatim>\<open>sendResult\<close> catches its own.
\<close>

definition sendResults :: "config \<Rightarrow> net \<Rightarrow> testResult list \<Rightarrow> xval \<Rightarrow> world \<Rightarrow> world" where
  "sendResults cfg nt testResults testsuites w =
     (if url cfg = [] then
        log ''Unable to report test results back to Spira since URL in configuration is empty'' w
      else
        (case (if create_build cfg then createBuild cfg nt testResults testsuites w
               else (IdNum (IntVal (- 1)), w)) of
           (buildId, w1) \<Rightarrow>
             (case sendAll cfg nt buildId testResults
                     (0, log (''Sending test results to Spira at URL '' @ apostrophe @ url cfg
                              @ apostrophe @ ''.'') w1) of
                (successCount, w2) \<Rightarrow>
                  log (''Successfully reported '' @ showNat successCount
                       @ '' test cases to Spira.'' @ newline) w2)))"

section \<open>Vocabulary of the properties\<close>

definition isBuildRequest :: "request \<Rightarrow> bool" where
  "isBuildRequest rq = (case req_endpoint rq of Builds p r \<Rightarrow> True | _ \<Rightarrow> False)"

text \<open>
  \<open>extends w w'\<close>: the requests of \<open>w'\<close> are those of \<open>w\<close> followed by further ones,
  none of which creates a build.
\<close>

definition extends :: "world \<Rightarrow> world \<Rightarrow> bool" where
  "extends w w' =
     (\<exists>later. requests w' = requests w @ later \<and> (\<forall>rq \<in> set later. \<not> isBuildRequest rq))"

text \<open>The results a call of \<^verbatim>\<open>processTestCase\<close> leaves, none when it throws.\<close>

definition resultsOf :: "error + testResult list \<times> world \<Rightarrow> testResult list" where
  "resultsOf outcome = (case outcome of Inr (testResults, w) \<Rightarrow> testResults | Inl e \<Rightarrow> [])"

text \<open>
  The line that \<^verbatim>\<open>system-out\<close> or \<^verbatim>\<open>system-err\<close> adds to the details of a case that
  is submitted: the label and the text of the element, when the element is there and
  its text is not empty. (An element with attributes or children, or a repeated one,
  is no string: the case is not submitted then, see \<open>captureOutput\<close>.)
\<close>

definition streamLine :: "string \<Rightarrow> xval option \<Rightarrow> string" where
  "streamLine label element =
     (case element of
        None \<Rightarrow> []
      | Some (XStr text) \<Rightarrow> if text = [] then [] else label @ text @ [CHR 0x0A]
      | Some (XObj kvs) \<Rightarrow> []
      | Some (XArr xs) \<Rightarrow> [])"

text \<open>
  The properties of a case, from its \<^verbatim>\<open>properties\<close> element: the elements of the
  array when \<^verbatim>\<open>property\<close> is repeated, the one property otherwise; none when there is
  no \<^verbatim>\<open>properties\<close> element, when it has no \<^verbatim>\<open>property\<close> or an empty one, and when
  the \<^verbatim>\<open>properties\<close> element itself is text or is repeated.
\<close>

definition listedProperties :: "xval option \<Rightarrow> xval list" where
  "listedProperties element =
     (case element of
        None \<Rightarrow> []
      | Some (XStr text) \<Rightarrow> []
      | Some (XArr xs) \<Rightarrow> []
      | Some (XObj kvs) \<Rightarrow>
          (case map_of kvs ''property'' of
             None \<Rightarrow> []
           | Some (XStr text) \<Rightarrow> if text = [] then [] else [XStr text]
           | Some (XObj p) \<Rightarrow> [XObj p]
           | Some (XArr ps) \<Rightarrow> ps))"

text \<open>The line that a property adds to the details, and the value of a property.\<close>

definition propValueOf :: "xval \<Rightarrow> xval" where
  "propValueOf prop = orElse (getProp prop ''value'') (orElse (getProp prop ''_'') (XStr ''''))"

definition propertyLine :: "xval \<Rightarrow> string" where
  "propertyLine prop =
     ''- '' @ template (getProp prop ''name'') @ ''='' @ toString (propValueOf prop) @ newline"

text \<open>
  A property on which the loop does not throw: its name is a string, and its value is
  a string when the name starts with \<^verbatim>\<open>attachment\<close>.
\<close>

definition wellFormedProperty :: "xval \<Rightarrow> bool" where
  "wellFormedProperty prop =
     (case getProp prop ''name'' of
        Some (XStr pn) \<Rightarrow>
          (if startsWith pn ''attachment''
           then (case propValueOf prop of XStr pv \<Rightarrow> True | XObj kvs \<Rightarrow> False | XArr xs \<Rightarrow> False)
           else True)
      | Some (XObj kvs) \<Rightarrow> False
      | Some (XArr xs) \<Rightarrow> False
      | None \<Rightarrow> False)"

text \<open>A \<^verbatim>\<open>system-out\<close> or \<^verbatim>\<open>system-err\<close> that is text, empty or missing.\<close>

definition textOrAbsent :: "xval \<Rightarrow> string \<Rightarrow> bool" where
  "textOrAbsent testcase key =
     (case truthyProp testcase key of
        None \<Rightarrow> True
      | Some (XStr text) \<Rightarrow> True
      | Some (XObj kvs) \<Rightarrow> False
      | Some (XArr xs) \<Rightarrow> False)"

definition unreadableLine :: "string \<Rightarrow> string \<Rightarrow> string" where
  "unreadableLine filepath msg =
     ''Unable to read image file '' @ apostrophe @ filepath @ apostrophe
     @ '' due to error '' @ apostrophe @ msg @ apostrophe
     @ '', so skipping attachment.'' @ newline"

text \<open>
  What a property contributes: its value as a link when its name starts with
  \<^verbatim>\<open>attachment\<close> and the value with \<^verbatim>\<open>http\<close>; the file of that name beside the report
  when the name starts with \<^verbatim>\<open>attachment\<close>, the value does not start with \<^verbatim>\<open>http\<close>
  and the file can be read.
\<close>

definition isAttachmentProperty :: "xval \<Rightarrow> bool" where
  "isAttachmentProperty prop =
     (case getProp prop ''name'' of
        Some (XStr pn) \<Rightarrow> startsWith pn ''attachment''
      | Some (XObj kvs) \<Rightarrow> False
      | Some (XArr xs) \<Rightarrow> False
      | None \<Rightarrow> False)"

definition linksOf :: "xval \<Rightarrow> string list" where
  "linksOf prop =
     (case propValueOf prop of
        XStr pv \<Rightarrow> if isAttachmentProperty prop \<and> startsWith pv ''http'' then [pv] else []
      | XObj kvs \<Rightarrow> []
      | XArr xs \<Rightarrow> [])"

definition filesOf :: "files \<Rightarrow> string \<Rightarrow> xval \<Rightarrow> attachment list" where
  "filesOf fs reportFile prop =
     (case propValueOf prop of
        XStr pv \<Rightarrow>
          if isAttachmentProperty prop \<and> \<not> startsWith pv ''http'' then
            (case readFileSync fs (pathJoin fs (dirname fs reportFile) pv) of
               Inr fileData \<Rightarrow> [\<lparr>filename = pv, binary_data = base64 fs fileData\<rparr>]
             | Inl msg \<Rightarrow> [])
          else []
      | XObj kvs \<Rightarrow> []
      | XArr xs \<Rightarrow> [])"

text \<open>
  The assignments of a configuration file, in the order of the lines: the section a
  line \<^verbatim>\<open>key = value\<close> stands in, its trimmed key and its trimmed value. Blank
  lines, comments and lines without \<^verbatim>\<open>=\<close> or without a key assign nothing; a line
  \<^verbatim>\<open>[name]\<close> opens the section \<^verbatim>\<open>name\<close>.
\<close>

fun assignments :: "string \<Rightarrow> string list \<Rightarrow> (string \<times> string \<times> string) list" where
  "assignments sec [] = []"
| "assignments sec (l # ls) =
     (let line = trim l in
      if line = [] \<or> startsWith line ''#'' then assignments sec ls
      else if startsWith line ''['' \<and> endsWith line '']'' then assignments (slice_1_m1 line) ls
      else
        (case split_str (CHR ''='') line of
           [] \<Rightarrow> assignments sec ls
         | key # valueParts \<Rightarrow>
             if key = [] \<or> valueParts = [] then assignments sec ls
             else (sec, trim key, trim (join_str ''='' valueParts)) # assignments sec ls))"

text \<open>The assignments stored one after the other, until one throws.\<close>

fun storeAll :: "configObject \<Rightarrow> (string \<times> string \<times> string) list \<Rightarrow> error + configObject" where
  "storeAll obj [] = Inr obj"
| "storeAll obj ((sec, k, v) # es) =
     (case storeLine sec obj k v of
        Inl e \<Rightarrow> Inl e
      | Inr obj' \<Rightarrow> storeAll obj' es)"

text \<open>
  What the loaded object holds for a key of a section: for a key of the credentials
  the property of that name, for a key of \<^verbatim>\<open>[test_cases]\<close> or \<^verbatim>\<open>[test_sets]\<close> the
  entry of the lookup table under the key in lower case (none when the table has been
  replaced). What a value text stands for there: \<^verbatim>\<open>create_build\<close> is a boolean, the
  three ids of the credentials and the entries of the two tables are integers, every
  other credential is the text itself. Two keys of a table are the same when they are
  equal in lower case.
\<close>

definition stored :: "configObject \<Rightarrow> string \<Rightarrow> string \<Rightarrow> fieldValue option" where
  "stored obj sec k =
     (if sec = ''credentials'' then obj k
      else if sec = ''test_cases'' then
        (case obj ''test_case_ids'' of
           Some (TableField ids) \<Rightarrow> map_option NumberField (ids (toLowerCase k))
         | _ \<Rightarrow> None)
      else if sec = ''test_sets'' then
        (case obj ''test_set_ids'' of
           Some (TableField ids) \<Rightarrow> map_option NumberField (ids (toLowerCase k))
         | _ \<Rightarrow> None)
      else None)"

definition parsedValue :: "string \<Rightarrow> string \<Rightarrow> string \<Rightarrow> fieldValue" where
  "parsedValue sec k v =
     (if sec = ''credentials'' then
        (if k = ''create_build'' then BoolField (toLowerCase v = ''true'')
         else if k = ''project_id'' \<or> k = ''release_id'' \<or> k = ''test_set_id''
           then NumberField (parseInt v)
         else TextField v)
      else NumberField (parseInt v))"

definition sameKey :: "string \<Rightarrow> string \<Rightarrow> string \<Rightarrow> bool" where
  "sameKey sec k k' = (if sec = ''credentials'' then k = k' else toLowerCase k = toLowerCase k')"

text \<open>
  The keys that JavaScript treats apart. An assignment to \<^verbatim>\<open>__proto__\<close> is ignored:
  \<open>ignoredKey\<close>. A line \<^verbatim>\<open>test_case_ids = ...\<close> or \<^verbatim>\<open>test_set_ids = ...\<close> of the
  credentials replaces a whole lookup table by a string: \<open>replacesTable sec' k' sec\<close>
  says that the line with the key \<open>k'\<close> in the section \<open>sec'\<close> replaces the table of
  the section \<open>sec\<close>.
\<close>

definition ignoredKey :: "string \<Rightarrow> string \<Rightarrow> bool" where
  "ignoredKey sec k =
     ((if sec = ''credentials'' then k else toLowerCase k) = ''__proto__'')"

definition replacesTable :: "string \<Rightarrow> string \<Rightarrow> string \<Rightarrow> bool" where
  "replacesTable sec' k' sec =
     (sec' = ''credentials''
      \<and> (sec = ''test_cases'' \<and> k' = ''test_case_ids''
          \<or> sec = ''test_sets'' \<and> k' = ''test_set_ids''))"

section \<open>Example inputs\<close>

definition world0 :: world where
  "world0 = \<lparr>console = [], requests = [], ticks = 0\<rparr>"

text \<open>A file system in which no file can be read.\<close>

definition noFiles :: files where
  "noFiles =
     \<lparr>dirname = (\<lambda>p. ''.''), pathJoin = (\<lambda>a b. a @ ''/'' @ b),
      readFileSync = (\<lambda>p. Inl ''ENOENT''), base64 = (\<lambda>b. b)\<rparr>"

definition tcReg :: xval where
  "tcReg = XObj [(''classname'', XStr ''LIS.Registration''), (''name'', XStr ''registration1'')]"

definition cfgZero :: config where
  "cfgZero = newConfig\<lparr>test_case_ids := [''lis.registration.registration1'' \<mapsto> IntVal 0]\<rparr>"

definition cfgReg :: config where
  "cfgReg = newConfig\<lparr>test_case_ids := [''lis.registration.registration1'' \<mapsto> IntVal 2]\<rparr>"

definition cfgBuild :: config where
  "cfgBuild =
     newConfig\<lparr>url := ''http://localhost/spira'', project_id := IntVal 1,
               release_id := IntVal 5, create_build := True\<rparr>"

definition resultFail :: testResult where
  "resultFail =
     \<lparr>test_case_id = IntVal 2, name = ''LIS.Registration.registration1'',
      execution_status_id = 1, stack_trace = XStr ''expected 1 but was 2'',
      message = XStr ''Test Failed'', duration_seconds = Fin (1 / 2), assert_count = IntVal 1,
      result_test_set_id = IntVal (- 1), attachments = [], links = []\<rparr>"

text \<open>A server that answers every request with the id 7, and one that cannot be reached.\<close>

definition netUp :: net where
  "netUp =
     \<lparr>server = (\<lambda>earlier rq. Replied (IdNum (IntVal 7))), clock = (\<lambda>n. 1000),
      isoFormat = (\<lambda>t. ''2026-01-01T00:00:01.000Z'')\<rparr>"

definition netDown :: net where
  "netDown =
     \<lparr>server = (\<lambda>earlier rq. Failed ''Network Error''), clock = (\<lambda>n. 1000),
      isoFormat = (\<lambda>t. ''2026-01-01T00:00:01.000Z'')\<rparr>"

text \<open>
  \<^verbatim>\<open><testcase classname="LIS.Registration" name="registration1"><skipped/></testcase>\<close>:
  the empty element is the empty string.
\<close>

definition tcSkippedEmpty :: xval where
  "tcSkippedEmpty =
     XObj [(''classname'', XStr ''LIS.Registration''), (''name'', XStr ''registration1''),
           (''skipped'', XStr '''')]"

text \<open>The same case with \<^verbatim>\<open><failure/>\<close> and \<^verbatim>\<open><skipped message="not run"/>\<close>.\<close>

definition tcFailureEmptySkipped :: xval where
  "tcFailureEmptySkipped =
     XObj [(''classname'', XStr ''LIS.Registration''), (''name'', XStr ''registration1''),
           (''failure'', XStr ''''),
           (''skipped'', XObj [(''message'', XStr ''not run'')])]"

text \<open>The same case with \<^verbatim>\<open><error/>\<close>.\<close>

definition tcErrorEmpty :: xval where
  "tcErrorEmpty =
     XObj [(''classname'', XStr ''LIS.Registration''), (''name'', XStr ''registration1''),
           (''error'', XStr '''')]"

text \<open>The same case with \<^verbatim>\<open>time="abc"\<close>, with \<^verbatim>\<open>time="-1.5"\<close> and with \<^verbatim>\<open>time="0.25"\<close>.\<close>

definition tcTimeAbc :: xval where
  "tcTimeAbc =
     XObj [(''classname'', XStr ''LIS.Registration''), (''name'', XStr ''registration1''),
           (''time'', XStr ''abc'')]"

definition tcTimeNegative :: xval where
  "tcTimeNegative =
     XObj [(''classname'', XStr ''LIS.Registration''), (''name'', XStr ''registration1''),
           (''time'', XStr ''-1.5'')]"

definition tcTimeQuarter :: xval where
  "tcTimeQuarter =
     XObj [(''classname'', XStr ''LIS.Registration''), (''name'', XStr ''registration1''),
           (''time'', XStr ''0.25'')]"

text \<open>A server on which creating a build fails and every other request gets the id 7.\<close>

definition netBuildDown :: net where
  "netBuildDown =
     \<lparr>server = (\<lambda>earlier rq. if isBuildRequest rq then Failed ''Request failed with status code 500''
                              else Replied (IdNum (IntVal 7))),
      clock = (\<lambda>n. 1000),
      isoFormat = (\<lambda>t. ''2026-01-01T00:00:01.000Z'')\<rparr>"

text \<open>
  A passed case with output on both streams and two properties; a case with the
  properties \<^verbatim>\<open>attachment_1 = http://example.com/x\<close> and
  \<^verbatim>\<open>attachment_2 = out/log.txt\<close>.
\<close>

definition tcVerbose :: xval where
  "tcVerbose =
     XObj [(''classname'', XStr ''LIS.Registration''), (''name'', XStr ''registration1''),
           (''system-out'', XStr ''started''),
           (''system-err'', XStr ''deprecated''),
           (''properties'',
            XObj [(''property'',
                   XArr [XObj [(''name'', XStr ''browser''), (''value'', XStr ''firefox'')],
                         XObj [(''name'', XStr ''os''), (''value'', XStr ''linux'')]])])]"

definition propLink :: xval where
  "propLink = XObj [(''name'', XStr ''attachment_1''), (''value'', XStr ''http://example.com/x'')]"

definition propFile :: xval where
  "propFile = XObj [(''name'', XStr ''attachment_2''), (''value'', XStr ''out/log.txt'')]"

definition tcAttachments :: xval where
  "tcAttachments =
     XObj [(''classname'', XStr ''LIS.Registration''), (''name'', XStr ''registration1''),
           (''properties'', XObj [(''property'', XArr [propLink, propFile])])]"

text \<open>A file system that holds the one file \<^verbatim>\<open>reports/out/log.txt\<close>.\<close>

definition oneFile :: files where
  "oneFile =
     \<lparr>dirname = (\<lambda>p. ''reports''), pathJoin = (\<lambda>a b. a @ ''/'' @ b),
      readFileSync = (\<lambda>p. if p = ''reports/out/log.txt'' then Inr ''ok'' else Inl ''ENOENT''),
      base64 = (\<lambda>b. if b = ''ok'' then ''b2s='' else [])\<rparr>"

text \<open>
  The case \<open>tcReg\<close> with the children \<^verbatim>\<open><system-out/>\<close>, \<^verbatim>\<open><system-err/>\<close> and
  \<^verbatim>\<open><properties><property/></properties>\<close>: the elements are there and empty.
\<close>

definition tcSilent :: xval where
  "tcSilent =
     XObj [(''classname'', XStr ''LIS.Registration''), (''name'', XStr ''registration1''),
           (''system-out'', XStr ''''), (''system-err'', XStr ''''),
           (''properties'', XObj [(''property'', XStr '''')])]"

text \<open>
  The case \<open>tcReg\<close> with two \<^verbatim>\<open>properties\<close> elements, each with one property: the
  repeated element is an array.
\<close>

definition tcTwoBlocks :: xval where
  "tcTwoBlocks =
     XObj [(''classname'', XStr ''LIS.Registration''), (''name'', XStr ''registration1''),
           (''properties'',
            XArr [XObj [(''property'',
                        XObj [(''name'', XStr ''browser''), (''value'', XStr ''firefox'')])],
                  XObj [(''property'',
                        XObj [(''name'', XStr ''os''), (''value'', XStr ''linux'')])]])]"

text \<open>
  Three configuration files. \<^verbatim>\<open>spira.cfg\<close> sets \<^verbatim>\<open>url\<close> twice and maps the same test
  case twice, in different case. \<^verbatim>\<open>proto.cfg\<close> maps the test case \<^verbatim>\<open>__proto__\<close>
  twice. \<^verbatim>\<open>replaced.cfg\<close> maps a test case twice and then sets the credential
  \<^verbatim>\<open>test_case_ids\<close>.
\<close>

definition dupText :: string where
  "dupText =
     ''[credentials]'' @ newline
     @ ''url = http://a'' @ newline
     @ ''url = http://b'' @ newline
     @ ''[test_cases]'' @ newline
     @ ''Foo.Bar = 1'' @ newline
     @ ''foo.bar = 2''"

definition protoText :: string where
  "protoText =
     ''[test_cases]'' @ newline
     @ ''__proto__ = 5'' @ newline
     @ ''__proto__ = 6''"

definition replacedText :: string where
  "replacedText =
     ''[test_cases]'' @ newline
     @ ''foo.bar = 1'' @ newline
     @ ''foo.bar = 2'' @ newline
     @ ''[credentials]'' @ newline
     @ ''test_case_ids = none''"

definition configFiles :: files where
  "configFiles =
     \<lparr>dirname = (\<lambda>p. ''.''), pathJoin = (\<lambda>a b. a @ ''/'' @ b),
      readFileSync = (\<lambda>p. if p = ''spira.cfg'' then Inr dupText
                           else if p = ''proto.cfg'' then Inr protoText
                           else if p = ''replaced.cfg'' then Inr replacedText
                           else Inl ''ENOENT''),
      base64 = (\<lambda>b. b)\<rparr>"

text \<open>The objects that loading the first and the third file gives.\<close>

definition dupObject :: configObject where
  "dupObject =
     newObject(''url'' \<mapsto> TextField ''http://b'',
               ''test_case_ids'' \<mapsto> TableField [''foo.bar'' \<mapsto> IntVal 2])"

definition replacedObject :: configObject where
  "replacedObject = newObject(''test_case_ids'' \<mapsto> TextField ''none'')"

section \<open>Properties\<close>

lemmas string_defs = isWhiteSpace_def trimStart_def trim_def toLowerCase_def toLowerChar_def
  upperLetters_def lowerLetters_def upperLatin_def lowerLatin_def overflows_def endsWith_def slice_1_m1_def newline_def apostrophe_def
  isDigit_def decDigits_def digitsVal_def digitVal_def hexDigits_def isHexDigit_def
  parseInt_def parseFloat_def exponentPart_def scale10_def

lemmas case_defs = fullNameOf_def template_def truthyProp_def orElse_def elapsedTimeOf_def
  statusOf_def assertCountOf_def captureOutput_def processProperty_def propertiesOf_def
  processTestCase_def extractAttachments_def matchAll_def matchAt_def isPathChar_def
  readAttachmentFile_def log_def

lemmas example_defs = string_defs case_defs cfgReg_def newConfig_def

lemma tcReg_processed:
  "processTestCase cfgReg noFiles tcReg (XStr ''LIS'') ''report.xml'' ([], world0)
   = Inr ([\<lparr>test_case_id = IntVal 2, name = ''LIS.Registration.registration1'',
            execution_status_id = 2, stack_trace = XStr (''Nothing Reported'' @ newline),
            message = XStr ''Success'', duration_seconds = Fin 0, assert_count = IntVal 0,
            result_test_set_id = IntVal (- 1), attachments = [], links = []\<rparr>], world0)"
  by (simp add: tcReg_def cfgReg_def newConfig_def string_defs case_defs)

subsection \<open>Test cases without a test-case id\<close>

text \<open>
  Claim C2. The test-case id is read from the table under the qualified name
  \<^verbatim>\<open>classname.name\<close> in lower case, where each of the two attributes is printed as a
  template literal prints it. When the table has no entry there, or the entry is 0 (or
  NaN), the case is skipped: the one line below is logged, the list of results is
  unchanged and nothing else happens. When the table has another id there and the case
  is processed without an exception, exactly one result is appended and it carries
  that id and the qualified name.
\<close>

theorem C2_unmapped_case_is_skipped:
  "(test_case_ids cfg
      (toLowerCase (template (getProp testcase ''classname'') @ ''.''
                    @ template (getProp testcase ''name'')))
        \<in> {None, Some (IntVal 0), Some IntNaN}
      \<longrightarrow> processTestCase cfg fs testcase suiteName reportFile (testResults, w)
            = Inr (testResults,
                   w\<lparr>console := console w
                       @ [''Unable to find Spira id tag for test case '' @ [CHR 0x27]
                          @ template (getProp testcase ''classname'') @ ''.''
                          @ template (getProp testcase ''name'') @ [CHR 0x27]
                          @ '', so skipping this test case.'']\<rparr>))
   \<and> (\<forall>n rs w'.
         test_case_ids cfg
           (toLowerCase (template (getProp testcase ''classname'') @ ''.''
                         @ template (getProp testcase ''name''))) = Some (IntVal n)
         \<and> n \<noteq> 0
         \<and> processTestCase cfg fs testcase suiteName reportFile (testResults, w) = Inr (rs, w')
      \<longrightarrow> (\<exists>r. rs = testResults @ [r] \<and> test_case_id r = IntVal n
               \<and> name r = template (getProp testcase ''classname'') @ ''.''
                          @ template (getProp testcase ''name'')))"
proof -
  let ?full = "template (getProp testcase ''classname'') @ ''.''
               @ template (getProp testcase ''name'')"
  have full: "fullNameOf testcase = ?full"
    by (simp add: fullNameOf_def)
  have skipped: "processTestCase cfg fs testcase suiteName reportFile (testResults, w)
               = Inr (testResults,
                      w\<lparr>console := console w
                          @ [''Unable to find Spira id tag for test case '' @ [CHR 0x27]
                             @ ?full @ [CHR 0x27] @ '', so skipping this test case.'']\<rparr>)"
    if "test_case_ids cfg (toLowerCase ?full) \<in> {None, Some (IntVal 0), Some IntNaN}"
  proof -
    from that have "truthyId (test_case_ids cfg (toLowerCase ?full)) = None"
      by auto
    then show ?thesis
      by (simp add: processTestCase_def full log_def apostrophe_def)
  qed
  have mapped: "\<exists>r. rs = testResults @ [r] \<and> test_case_id r = IntVal n \<and> name r = ?full"
    if "test_case_ids cfg (toLowerCase ?full) = Some (IntVal n)" and "n \<noteq> 0"
      and "processTestCase cfg fs testcase suiteName reportFile (testResults, w) = Inr (rs, w')"
    for n rs w'
  proof -
    from that(1,2) have "truthyId (test_case_ids cfg (toLowerCase ?full)) = Some (IntVal n)"
      by simp
    with that(3) show ?thesis
      by (auto simp: processTestCase_def full Let_def
               split: xval.splits prod.splits sum.splits)
  qed
  from skipped mapped show ?thesis
    by (simp only: append_assoc) blast
qed

text \<open>
  The case \<^verbatim>\<open>LIS.Registration\<close>, \<^verbatim>\<open>registration1\<close> with the id 0 in the table, the
  same case with the id 2, and a case without a \<^verbatim>\<open>classname\<close>, for which the table
  has nothing under \<^verbatim>\<open>undefined.registration1\<close>.
\<close>

theorem C2_witness:
  "test_case_ids cfgZero ''lis.registration.registration1'' = Some (IntVal 0)
   \<and> processTestCase cfgZero noFiles
        (XObj [(''classname'', XStr ''LIS.Registration''), (''name'', XStr ''registration1'')])
        (XStr ''LIS'') ''report.xml'' ([], world0)
     = Inr ([], \<lparr>console = [''Unable to find Spira id tag for test case '' @ [CHR 0x27]
                              @ ''LIS.Registration.registration1'' @ [CHR 0x27]
                              @ '', so skipping this test case.''],
                 requests = [], ticks = 0\<rparr>)
   \<and> test_case_ids cfgReg ''undefined.registration1'' = None
   \<and> processTestCase cfgReg noFiles (XObj [(''name'', XStr ''registration1'')])
        (XStr ''LIS'') ''report.xml'' ([], world0)
     = Inr ([], \<lparr>console = [''Unable to find Spira id tag for test case '' @ [CHR 0x27]
                              @ ''undefined.registration1'' @ [CHR 0x27]
                              @ '', so skipping this test case.''],
                 requests = [], ticks = 0\<rparr>)
   \<and> test_case_ids cfgReg ''lis.registration.registration1'' = Some (IntVal 2)
   \<and> (\<exists>r. processTestCase cfgReg noFiles
              (XObj [(''classname'', XStr ''LIS.Registration''), (''name'', XStr ''registration1'')])
              (XStr ''LIS'') ''report.xml'' ([], world0)
             = Inr ([r], world0)
          \<and> test_case_id r = IntVal 2 \<and> name r = ''LIS.Registration.registration1'')"
proof -
  let ?tc = "XObj [(''classname'', XStr ''LIS.Registration''), (''name'', XStr ''registration1'')]"
  let ?anon = "XObj [(''name'', XStr ''registration1'')]"
  have h1: "test_case_ids cfgZero ''lis.registration.registration1'' = Some (IntVal 0)"
    by (simp add: cfgZero_def)
  have h2: "test_case_ids cfgReg ''undefined.registration1'' = None"
    by (simp add: cfgReg_def newConfig_def)
  have h3: "test_case_ids cfgReg ''lis.registration.registration1'' = Some (IntVal 2)"
    by (simp add: cfgReg_def)
  from C2_unmapped_case_is_skipped [of cfgZero ?tc noFiles "XStr ''LIS''" "''report.xml''" "[]" world0]
  have c1: "processTestCase cfgZero noFiles ?tc (XStr ''LIS'') ''report.xml'' ([], world0)
     = Inr ([], \<lparr>console = [''Unable to find Spira id tag for test case '' @ [CHR 0x27]
                              @ ''LIS.Registration.registration1'' @ [CHR 0x27]
                              @ '', so skipping this test case.''],
                 requests = [], ticks = 0\<rparr>)"
    using h1 by (simp add: template_def string_defs world0_def)
  from C2_unmapped_case_is_skipped [of cfgReg ?anon noFiles "XStr ''LIS''" "''report.xml''" "[]" world0]
  have c2: "processTestCase cfgReg noFiles ?anon (XStr ''LIS'') ''report.xml'' ([], world0)
     = Inr ([], \<lparr>console = [''Unable to find Spira id tag for test case '' @ [CHR 0x27]
                              @ ''undefined.registration1'' @ [CHR 0x27]
                              @ '', so skipping this test case.''],
                 requests = [], ticks = 0\<rparr>)"
    using h2 by (simp add: template_def string_defs world0_def)
  from C2_unmapped_case_is_skipped [of cfgReg ?tc noFiles "XStr ''LIS''" "''report.xml''" "[]" world0]
  have "\<forall>n rs w'.
         test_case_ids cfgReg ''lis.registration.registration1'' = Some (IntVal n) \<and> n \<noteq> 0
         \<and> processTestCase cfgReg noFiles ?tc (XStr ''LIS'') ''report.xml'' ([], world0) = Inr (rs, w')
      \<longrightarrow> (\<exists>r. rs = [r] \<and> test_case_id r = IntVal n
               \<and> name r = ''LIS.Registration.registration1'')"
    by (simp add: template_def string_defs)
  with h3 tcReg_processed
  have c3: "\<exists>r. processTestCase cfgReg noFiles ?tc (XStr ''LIS'') ''report.xml'' ([], world0)
             = Inr ([r], world0)
          \<and> test_case_id r = IntVal 2 \<and> name r = ''LIS.Registration.registration1''"
    unfolding tcReg_def by fastforce
  from h1 c1 h2 c2 h3 c3 show ?thesis
    by blast
qed

subsection \<open>The requests of the submitter\<close>

lemma extends_refl: "extends w w"
  by (simp add: extends_def)

lemma extends_trans: "extends w w1 \<Longrightarrow> extends w1 w2 \<Longrightarrow> extends w w2"
  by (auto simp: extends_def)

lemma requests_log [simp]: "requests (log l w) = requests w"
  by (simp add: log_def)

lemma extends_log: "extends w (log l w)"
  by (simp add: extends_def)

lemma extends_SpiraDocument_post:
  "extends w (snd (SpiraDocument_post nt doc u usr tok b w))"
  by (cases doc)
     (auto simp: extends_def post_def Let_def isBuildRequest_def
           split: response.splits prod.splits)

lemma extends_postAttachments: "extends w (postAttachments cfg nt tr as w)"
proof (induction as arbitrary: w)
  case Nil
  then show ?case by (simp add: extends_refl)
next
  case (Cons a as)
  show ?case
    unfolding postAttachments.simps
    by (rule extends_trans [OF extends_SpiraDocument_post Cons.IH])
qed

lemma extends_postLinks: "extends w (postLinks cfg nt tr ls w)"
proof (induction ls arbitrary: w)
  case Nil
  then show ?case by (simp add: extends_refl)
next
  case (Cons a as)
  show ?case
    unfolding postLinks.simps
    by (rule extends_trans [OF extends_SpiraDocument_post Cons.IH])
qed

lemma extends_SpiraTestRun_post:
  "SpiraTestRun_post nt run u usr tok w = Some (tr, w') \<Longrightarrow> extends w w'"
  by (cases run)
     (auto simp: extends_def post_def Let_def isBuildRequest_def
           split: response.splits prod.splits option.splits)

lemma extends_sendResult: "extends w (snd (sendResult cfg nt r t b w))"
  unfolding sendResult_def Let_def
  by (auto split: option.splits simp: extends_log
      intro: extends_trans [OF extends_SpiraTestRun_post]
             extends_trans [OF extends_postAttachments extends_postLinks]
             extends_SpiraTestRun_post)

lemma extends_sendAll: "extends w (snd (sendAll cfg nt b rs (n, w)))"
proof (induction rs arbitrary: n w)
  case Nil
  then show ?case by (simp add: extends_refl)
next
  case (Cons r rs)
  obtain t w1 where rc: "readClock nt w = (t, w1)"
    by (cases "readClock nt w")
  obtain e w2 where sr: "sendResult cfg nt r t b w1 = (e, w2)"
    by (cases "sendResult cfg nt r t b w1")
  have "extends w w1"
    using rc by (auto simp: readClock_def extends_def)
  moreover have "extends w1 w2"
    using extends_sendResult [of w1 cfg nt r t b] sr by simp
  moreover have "extends w2 (snd (sendAll cfg nt b rs (if \<not> e then Suc n else n, w2)))"
    by (rule Cons.IH)
  ultimately have "extends w (snd (sendAll cfg nt b rs (if \<not> e then Suc n else n, w2)))"
    by (blast intro: extends_trans)
  then show ?case
    using rc sr by simp
qed

lemma buildStatusOf_eq:
  "buildStatusOf rs = (if \<exists>r\<in>set rs. execution_status_id r = 1 then 1 else 2)"
  by (induction rs) auto

lemma createBuild_requests:
  "\<exists>rq. requests (snd (createBuild cfg nt rs ts w)) = requests w @ [rq]
     \<and> req_endpoint rq = Builds (project_id cfg) (release_id cfg)
     \<and> map_of (req_body rq) ''BuildStatusId'' = Some (JNumber (IntVal (buildStatusOf rs)))"
  by (auto simp: createBuild_def Let_def post_def readClock_def log_def
           split: prod.splits response.splits)

text \<open>
  Claim C7. When the URL is set and \<^verbatim>\<open>create_build\<close> is on, the first request of
  \<^verbatim>\<open>sendResults\<close> creates the build of the configured project and release, its
  \<^verbatim>\<open>BuildStatusId\<close> is 1 when some result has the execution status 1 and 2
  otherwise, and no later request creates a build.
\<close>

theorem C7_build_status:
  assumes "url cfg \<noteq> []" and "create_build cfg"
  shows "\<exists>rq later. requests (sendResults cfg nt rs ts w) = requests w @ rq # later
     \<and> req_endpoint rq = Builds (project_id cfg) (release_id cfg)
     \<and> map_of (req_body rq) ''BuildStatusId''
         = Some (JNumber (IntVal (if \<exists>r\<in>set rs. execution_status_id r = 1 then 1 else 2)))
     \<and> (\<forall>rq' \<in> set later. \<not> isBuildRequest rq')"
proof -
  obtain b w1 where cb: "createBuild cfg nt rs ts w = (b, w1)"
    by (cases "createBuild cfg nt rs ts w")
  from createBuild_requests [of cfg nt rs ts w] cb
  obtain rq where rq: "requests w1 = requests w @ [rq]"
    "req_endpoint rq = Builds (project_id cfg) (release_id cfg)"
    "map_of (req_body rq) ''BuildStatusId'' = Some (JNumber (IntVal (buildStatusOf rs)))"
    by auto
  let ?w2 = "log (''Sending test results to Spira at URL '' @ apostrophe @ url cfg
                  @ apostrophe @ ''.'') w1"
  obtain n w3 where sa: "sendAll cfg nt b rs (0, ?w2) = (n, w3)"
    by (cases "sendAll cfg nt b rs (0, ?w2)")
  from extends_sendAll [of ?w2 cfg nt b rs 0] sa
  obtain later where later: "requests w3 = requests w1 @ later"
    "\<forall>rq' \<in> set later. \<not> isBuildRequest rq'"
    by (auto simp: extends_def)
  with rq have "requests (sendResults cfg nt rs ts w) = requests w @ rq # later"
    using assms cb sa by (simp add: sendResults_def)
  with rq later show ?thesis
    by (auto simp: buildStatusOf_eq)
qed

lemma cfgBuild_enabled: "url cfgBuild \<noteq> [] \<and> create_build cfgBuild"
  by (simp add: cfgBuild_def)

theorem C7_witness:
  "url cfgBuild \<noteq> [] \<and> create_build cfgBuild
   \<and> (\<exists>rq later. requests (sendResults cfgBuild netUp [resultFail] (XObj []) world0) = rq # later
         \<and> map_of (req_body rq) ''BuildStatusId'' = Some (JNumber (IntVal 1)))"
proof -
  have s: "\<exists>r\<in>set [resultFail]. execution_status_id r = 1"
    by (simp add: resultFail_def)
  have w: "requests world0 = []"
    by (simp add: world0_def)
  from C7_build_status [of cfgBuild netUp "[resultFail]" "XObj []" world0] cfgBuild_enabled
  obtain rq later where
    "requests (sendResults cfgBuild netUp [resultFail] (XObj []) world0) = requests world0 @ rq # later"
    "map_of (req_body rq) ''BuildStatusId''
       = Some (JNumber (IntVal (if \<exists>r\<in>set [resultFail]. execution_status_id r = 1 then 1 else 2)))"
    by blast
  with s w cfgBuild_enabled show ?thesis
    by (simp del: set_simps)
qed

text \<open>
  Claim C8. When the URL of the configuration is the empty string, \<^verbatim>\<open>sendResults\<close>
  prints one line and does nothing else: no request is posted, whatever the results
  are.
\<close>

theorem C8_empty_url_posts_nothing:
  assumes "url cfg = []"
  shows "sendResults cfg nt rs ts w
           = log ''Unable to report test results back to Spira since URL in configuration is empty'' w
         \<and> requests (sendResults cfg nt rs ts w) = requests w"
  using assms by (simp add: sendResults_def)

theorem C8_witness:
  "url newConfig = []
   \<and> requests (sendResults newConfig netUp [resultFail] (XObj []) world0) = []
   \<and> console (sendResults newConfig netUp [resultFail] (XObj []) world0)
       = [''Unable to report test results back to Spira since URL in configuration is empty'']"
proof -
  have u: "url newConfig = []"
    by (simp add: newConfig_def)
  from C8_empty_url_posts_nothing [OF u, of netUp "[resultFail]" "XObj []" world0]
  show ?thesis
    using u by (simp add: world0_def log_def)
qed

subsection \<open>What the chain of tests decides\<close>

text \<open>
  The execution status and the first assert count follow the first of the four
  children whose value is truthy, in the order failure, warning, error, skipped.
\<close>

lemma statusOf_precedence:
  "fst (snd (snd (statusOf tc))) =
     (if truthyProp tc ''failure'' \<noteq> None then 1
      else if truthyProp tc ''warning'' \<noteq> None then 6
      else if truthyProp tc ''error'' \<noteq> None then 5
      else if truthyProp tc ''skipped'' \<noteq> None then 4
      else 2)"
  by (auto simp: statusOf_def split: option.splits)

lemma statusOf_assertCount:
  "snd (snd (snd (statusOf tc))) =
     (if truthyProp tc ''failure'' = None \<and> truthyProp tc ''warning'' = None
         \<and> truthyProp tc ''error'' = None \<and> truthyProp tc ''skipped'' = None
      then IntVal 0 else IntVal 1)"
  by (auto simp: statusOf_def split: option.splits)

lemma truthyProp_empty: "getProp tc k = Some (XStr []) \<Longrightarrow> truthyProp tc k = None"
  by (simp add: truthyProp_def)

subsection \<open>Empty child elements\<close>

text \<open>
  Claim C1, on the code. An element \<^verbatim>\<open><skipped/>\<close> without attributes is the empty
  string, which \<^verbatim>\<open>if (testcase.skipped)\<close> does not take for a skipped node: the case is
  recorded with the execution status 2 (Pass), not 4. In the same way a case with
  \<^verbatim>\<open><failure/>\<close> and a skipped element that has a message is recorded with the status
  4, not 1.
\<close>

theorem C1_empty_skipped_passes:
  "map execution_status_id
     (resultsOf (processTestCase cfgReg noFiles tcSkippedEmpty (XStr ''LIS'') ''report.xml''
                   ([], world0))) = [2]
   \<and> map execution_status_id
     (resultsOf (processTestCase cfgReg noFiles tcFailureEmptySkipped (XStr ''LIS'') ''report.xml''
                   ([], world0))) = [4]"
  by (simp add: tcSkippedEmpty_def tcFailureEmptySkipped_def resultsOf_def example_defs)

text \<open>
  Claim C6, on the code. For the same reason a case whose only child is \<^verbatim>\<open><error/>\<close>
  or \<^verbatim>\<open><skipped/>\<close> keeps the assert count 0.
\<close>

theorem C6_empty_child_counts_zero:
  "map assert_count
     (resultsOf (processTestCase cfgReg noFiles tcErrorEmpty (XStr ''LIS'') ''report.xml''
                   ([], world0))) = [IntVal 0]
   \<and> map assert_count
     (resultsOf (processTestCase cfgReg noFiles tcSkippedEmpty (XStr ''LIS'') ''report.xml''
                   ([], world0))) = [IntVal 0]"
  by (simp add: tcSkippedEmpty_def tcErrorEmpty_def resultsOf_def example_defs)

subsection \<open>The body of a test run\<close>

text \<open>The optional fields of the body of a test run.\<close>

lemma testRunBody_ReleaseId:
  "map_of (testRunBody (SpiraTestRun p c n st s t0 t1 m rel ts ac b) sd ed) ''ReleaseId''
     = (if rel \<noteq> IntVal (- 1) then Some (JNumber rel) else None)"
  by simp

lemma testRunBody_BuildId:
  "map_of (testRunBody (SpiraTestRun p c n st s t0 t1 m rel ts ac b) sd ed) ''BuildId''
     = (if rel \<noteq> IntVal (- 1) \<and> b \<noteq> IdNum (IntVal (- 1)) then Some (JId b) else None)"
  by simp

lemma testRunBody_TestSetId:
  "map_of (testRunBody (SpiraTestRun p c n st s t0 t1 m rel ts ac b) sd ed) ''TestSetId''
     = (if ts \<noteq> IntVal (- 1) then Some (JNumber ts) else None)"
  by simp

text \<open>What \<^verbatim>\<open>SpiraBuild.post\<close> returns: the id of the response, and \<^verbatim>\<open>null\<close> otherwise.\<close>

lemma SpiraBuild_post_result:
  "fst (SpiraBuild_post nt build u usr tok w) = IdNull
   \<or> (\<exists>rq. server nt (requests w) rq = Replied (fst (SpiraBuild_post nt build u usr tok w)))"
  by (cases build) (auto simp: post_def Let_def split: response.splits)

subsection \<open>The build id after a failed build\<close>

lemmas submit_defs = sendResults_def createBuild_def sendResult_def newSpiraTestRun_def
  post_def readClock_def log_def toISOString_def stripMillis_def newDate_def millisBefore_def
  describe_def truthyProp_def isDigit_def decDigits_def RUNNER_NAME_def isBuildRequest_def
  newline_def apostrophe_def

text \<open>
  Claim C5, on the code. When the request that creates the build fails,
  \<^verbatim>\<open>SpiraBuild.post\<close> returns \<^verbatim>\<open>null\<close>, not \<^verbatim>\<open>-1\<close>; the test run that follows is
  posted with \<^verbatim>\<open>BuildId: null\<close> in its body. The two requests of the run below are
  the one for the build, which has no \<^verbatim>\<open>BuildId\<close>, and the one for the test run.
\<close>

theorem C5_failed_build_sends_null:
  "map (\<lambda>rq. map_of (req_body rq) ''BuildId'')
     (requests (sendResults cfgBuild netBuildDown [resultFail] (XObj []) world0))
   = [None, Some (JId IdNull)]"
  by (simp add: cfgBuild_def netBuildDown_def resultFail_def world0_def newConfig_def submit_defs)

subsection \<open>The shape of a processed test case\<close>

text \<open>
  A call of \<^verbatim>\<open>processTestCase\<close> that returns has either skipped the case or appended
  one result, whose fields are those computed by the parts of the function.
\<close>

lemma processTestCase_Inr:
  assumes "processTestCase cfg fs tc sn rf (rs, w) = Inr (rs', w')"
  shows "(truthyId (test_case_ids cfg (toLowerCase (fullNameOf tc))) = None \<and> rs' = rs)
    \<or> (\<exists>tcid s d1 a1 w1 d2 a2 w2 d3 a3 l3.
          truthyId (test_case_ids cfg (toLowerCase (fullNameOf tc))) = Some tcid
        \<and> sn = XStr s
        \<and> captureOutput fs rf tc ''system-out'' ''System Out: ''
             (fst (snd (statusOf tc)), [], w) = Inr (d1, a1, w1)
        \<and> captureOutput fs rf tc ''system-err'' ''System Err: '' (d1, a1, w1) = Inr (d2, a2, w2)
        \<and> processProperties fs rf (propertiesOf tc) (d2, a2, [], w2) = Inr (d3, a3, l3, w')
        \<and> rs' = rs @
             [\<lparr>test_case_id = tcid, name = fullNameOf tc,
               execution_status_id = fst (snd (snd (statusOf tc))),
               stack_trace = d3, message = fst (statusOf tc),
               duration_seconds = elapsedTimeOf tc,
               assert_count = assertCountOf tc (snd (snd (snd (statusOf tc)))),
               result_test_set_id =
                 (case truthyId (test_set_ids cfg (toLowerCase s)) of
                    Some found \<Rightarrow> found | None \<Rightarrow> IntVal (- 1)),
               attachments = a3, links = l3\<rparr>])"
  using assms
  by (auto simp: processTestCase_def Let_def
           split: option.splits xval.splits prod.splits sum.splits)

lemma processTestCase_appended:
  assumes "processTestCase cfg fs tc sn rf (rs, w) = Inr (rs', w')" and "rs' \<noteq> rs"
  obtains tcid s d1 a1 w1 d2 a2 w2 d3 a3 l3 where
    "truthyId (test_case_ids cfg (toLowerCase (fullNameOf tc))) = Some tcid"
    and "sn = XStr s"
    and "captureOutput fs rf tc ''system-out'' ''System Out: ''
           (fst (snd (statusOf tc)), [], w) = Inr (d1, a1, w1)"
    and "captureOutput fs rf tc ''system-err'' ''System Err: '' (d1, a1, w1) = Inr (d2, a2, w2)"
    and "processProperties fs rf (propertiesOf tc) (d2, a2, [], w2) = Inr (d3, a3, l3, w')"
    and "rs' = rs @
             [\<lparr>test_case_id = tcid, name = fullNameOf tc,
               execution_status_id = fst (snd (snd (statusOf tc))),
               stack_trace = d3, message = fst (statusOf tc),
               duration_seconds = elapsedTimeOf tc,
               assert_count = assertCountOf tc (snd (snd (snd (statusOf tc)))),
               result_test_set_id =
                 (case truthyId (test_set_ids cfg (toLowerCase s)) of
                    Some found \<Rightarrow> found | None \<Rightarrow> IntVal (- 1)),
               attachments = a3, links = l3\<rparr>]"
proof -
  from processTestCase_Inr [OF assms(1)] assms(2)
  have "\<exists>tcid s d1 a1 w1 d2 a2 w2 d3 a3 l3.
          truthyId (test_case_ids cfg (toLowerCase (fullNameOf tc))) = Some tcid
        \<and> sn = XStr s
        \<and> captureOutput fs rf tc ''system-out'' ''System Out: ''
             (fst (snd (statusOf tc)), [], w) = Inr (d1, a1, w1)
        \<and> captureOutput fs rf tc ''system-err'' ''System Err: '' (d1, a1, w1) = Inr (d2, a2, w2)
        \<and> processProperties fs rf (propertiesOf tc) (d2, a2, [], w2) = Inr (d3, a3, l3, w')
        \<and> rs' = rs @
             [\<lparr>test_case_id = tcid, name = fullNameOf tc,
               execution_status_id = fst (snd (snd (statusOf tc))),
               stack_trace = d3, message = fst (statusOf tc),
               duration_seconds = elapsedTimeOf tc,
               assert_count = assertCountOf tc (snd (snd (snd (statusOf tc)))),
               result_test_set_id =
                 (case truthyId (test_set_ids cfg (toLowerCase s)) of
                    Some found \<Rightarrow> found | None \<Rightarrow> IntVal (- 1)),
               attachments = a3, links = l3\<rparr>]"
    by blast
  then show thesis
    using that by blast
qed

subsection \<open>The recorded duration\<close>

lemma scale10_nonneg: "0 \<le> m \<Longrightarrow> 0 \<le> scale10 m e"
  by (simp add: scale10_def)

lemma parseFloat_nonneg:
  assumes "\<not> startsWith (trimStart s) ''-''" and "parseFloat s = Fin x"
  shows "0 \<le> x"
proof -
  let ?u = "if startsWith (trimStart s) ''+'' then tl (trimStart s) else trimStart s"
  let ?r0 = "dropWhile isDigit ?u"
  let ?fp = "if startsWith ?r0 ''.'' then takeWhile isDigit (tl ?r0) else []"
  let ?r1 = "if startsWith ?r0 ''.'' then dropWhile isDigit (tl ?r0) else ?r0"
  let ?m = "of_nat (digitsVal 10 (takeWhile isDigit ?u @ ?fp)) / 10 ^ length ?fp :: rat"
  from assms have "x = scale10 ?m (exponentPart ?r1)"
    by (simp add: parseFloat_def Let_def split: if_splits)
  moreover have "0 \<le> ?m"
    by simp
  ultimately show ?thesis
    using scale10_nonneg by simp
qed

text \<open>
  Claim C4, as the code has it. The duration recorded for a case is the value
  \<^verbatim>\<open>parseFloat\<close> gives for the \<^verbatim>\<open>time\<close> attribute, and 0 when the attribute is missing
  or empty. When it is a finite number and the text of the attribute, after its
  leading white space, does not begin with a minus sign, it is at least 0.
\<close>

theorem C4_recorded_duration:
  assumes "processTestCase cfg fs tc sn rf (rs, w) = Inr (rs', w')" and "rs' \<noteq> rs"
  shows "\<exists>r. rs' = rs @ [r]
     \<and> duration_seconds r =
         (case getProp tc ''time'' of
            None \<Rightarrow> Fin 0
          | Some t \<Rightarrow> if truthy t then parseFloat (toString t) else Fin 0)
     \<and> (\<forall>t x. getProp tc ''time'' = Some t \<and> duration_seconds r = Fin x
            \<and> \<not> startsWith (trimStart (toString t)) ''-'' \<longrightarrow> 0 \<le> x)"
proof -
  from processTestCase_Inr [OF assms(1)] assms(2)
  obtain r where r: "rs' = rs @ [r]" "duration_seconds r = elapsedTimeOf tc"
    by auto
  have d: "elapsedTimeOf tc =
         (case getProp tc ''time'' of
            None \<Rightarrow> Fin 0
          | Some t \<Rightarrow> if truthy t then parseFloat (toString t) else Fin 0)"
    by (simp add: elapsedTimeOf_def truthyProp_def split: option.splits)
  have "0 \<le> x" if "getProp tc ''time'' = Some t" "elapsedTimeOf tc = Fin x"
      "\<not> startsWith (trimStart (toString t)) ''-''" for t x
  proof (cases "truthy t")
    case True
    with that d have "parseFloat (toString t) = Fin x"
      by simp
    with that(3) show ?thesis
      by (rule parseFloat_nonneg)
  next
    case False
    with that d show ?thesis
      by simp
  qed
  with r d show ?thesis
    by auto
qed

lemma tcTimeQuarter_processed:
  "processTestCase cfgReg noFiles tcTimeQuarter (XStr ''LIS'') ''report.xml'' ([], world0)
   = Inr ([\<lparr>test_case_id = IntVal 2, name = ''LIS.Registration.registration1'',
            execution_status_id = 2, stack_trace = XStr (''Nothing Reported'' @ newline),
            message = XStr ''Success'', duration_seconds = Fin (1 / 4), assert_count = IntVal 0,
            result_test_set_id = IntVal (- 1), attachments = [], links = []\<rparr>], world0)"
  by (simp add: tcTimeQuarter_def example_defs)

theorem C4_witness:
  "\<exists>r. processTestCase cfgReg noFiles tcTimeQuarter (XStr ''LIS'') ''report.xml'' ([], world0)
         = Inr ([r], world0)
     \<and> getProp tcTimeQuarter ''time'' = Some (XStr ''0.25'')
     \<and> \<not> startsWith (trimStart ''0.25'') ''-''
     \<and> duration_seconds r = Fin (1 / 4) \<and> (0::rat) \<le> 1 / 4"
proof -
  have t: "getProp tcTimeQuarter ''time'' = Some (XStr ''0.25'')"
    by (simp add: tcTimeQuarter_def)
  have m: "\<not> startsWith (trimStart ''0.25'') ''-''"
    by (simp add: string_defs)
  from C4_recorded_duration [OF tcTimeQuarter_processed]
  obtain r where r: "[\<lparr>test_case_id = IntVal 2, name = ''LIS.Registration.registration1'',
            execution_status_id = 2, stack_trace = XStr (''Nothing Reported'' @ newline),
            message = XStr ''Success'', duration_seconds = Fin (1 / 4), assert_count = IntVal 0,
            result_test_set_id = IntVal (- 1), attachments = [], links = []\<rparr>] = [] @ [r]"
    and nn: "\<forall>t x. getProp tcTimeQuarter ''time'' = Some t \<and> duration_seconds r = Fin x
            \<and> \<not> startsWith (trimStart (toString t)) ''-'' \<longrightarrow> 0 \<le> x"
    by blast
  from r have d: "duration_seconds r = Fin (1 / 4)"
    by auto
  with nn t m have "(0::rat) \<le> 1 / 4"
    by (metis toString.simps(1))
  with r d t m tcTimeQuarter_processed show ?thesis
    by auto
qed

text \<open>
  Claim C4, as stated, fails: a \<^verbatim>\<open>time\<close> attribute that is not a number is recorded
  as NaN, not as 0, and a negative one is recorded as it is.
\<close>

theorem C4_counterexample:
  "map duration_seconds
     (resultsOf (processTestCase cfgReg noFiles tcTimeAbc (XStr ''LIS'') ''report.xml''
                   ([], world0))) = [NaN]
   \<and> NaN \<noteq> Fin 0
   \<and> map duration_seconds
     (resultsOf (processTestCase cfgReg noFiles tcTimeNegative (XStr ''LIS'') ''report.xml''
                   ([], world0))) = [Fin (- (3 / 2))]
   \<and> \<not> (0::rat) \<le> - (3 / 2)"
  by (simp add: tcTimeAbc_def tcTimeNegative_def resultsOf_def example_defs)

subsection \<open>The details of a case\<close>

lemma captureOutput_details:
  assumes "captureOutput fs rf tc key label (XStr d, atts, w) = Inr (d', atts', w')"
  shows "d' = XStr (d @ streamLine label (getProp tc key))"
  using assms
  by (auto simp: captureOutput_def streamLine_def truthyProp_def newline_def Let_def
           split: option.splits xval.splits prod.splits if_splits)

lemma processProperty_details:
  assumes "processProperty fs rf prop (XStr d, atts, lnks, w) = Inr (d', atts', lnks', w')"
  shows "d' = XStr (d @ propertyLine prop)"
  using assms
  by (auto simp: processProperty_def propertyLine_def propValueOf_def Let_def
           split: option.splits xval.splits prod.splits if_splits)

lemma processProperties_details:
  assumes "processProperties fs rf ps (XStr d, atts, lnks, w) = Inr (d', atts', lnks', w')"
  shows "d' = XStr (d @ concat (map propertyLine ps))"
  using assms
proof (induction ps arbitrary: d atts lnks w)
  case Nil
  then show ?case by simp
next
  case (Cons p ps)
  from Cons.prems obtain d1 a1 l1 w1 where
    step: "processProperty fs rf p (XStr d, atts, lnks, w) = Inr (d1, a1, l1, w1)"
    and rest: "processProperties fs rf ps (d1, a1, l1, w1) = Inr (d', atts', lnks', w')"
    by (auto split: sum.splits)
  from processProperty_details [OF step] have "d1 = XStr (d @ propertyLine p)" .
  with rest Cons.IH [of "d @ propertyLine p" a1 l1 w1] show ?case
    by simp
qed

lemma statusOf_nothing:
  assumes "getProp tc ''failure'' = None" and "getProp tc ''warning'' = None"
    and "getProp tc ''error'' = None" and "getProp tc ''skipped'' = None"
  shows "statusOf tc = (XStr ''Success'', XStr (''Nothing Reported'' @ newline), 2, IntVal 0)"
  using assms by (simp add: statusOf_def truthyProp_def)

text \<open>The list the loop over the properties runs over is the list of the properties.\<close>

lemma propertiesOf_listed: "propertiesOf tc = listedProperties (getProp tc ''properties'')"
  by (cases tc)
     (auto simp: propertiesOf_def listedProperties_def truthyProp_def
           split: option.splits xval.splits)

text \<open>
  Claim C10, as the code has it. For a case that is submitted and has none of the
  children \<^verbatim>\<open>failure\<close>, \<^verbatim>\<open>warning\<close>, \<^verbatim>\<open>error\<close> and \<^verbatim>\<open>skipped\<close>, the details are
  the line \<^verbatim>\<open>Nothing Reported\<close>, then the line \<^verbatim>\<open>System Out: ...\<close> when the
  element \<^verbatim>\<open>system-out\<close> is present and not empty, then the line \<^verbatim>\<open>System Err: ...\<close>
  when the element \<^verbatim>\<open>system-err\<close> is present and not empty, then one line
  \<^verbatim>\<open>- name=value\<close> for each property of the element \<^verbatim>\<open>properties\<close>, in the order of
  the properties. A single \<^verbatim>\<open>property\<close> that is an empty element counts for none,
  and so do the properties of a \<^verbatim>\<open>properties\<close> element that is repeated.
\<close>

theorem C10_details_of_passed_case:
  assumes "getProp tc ''failure'' = None" and "getProp tc ''warning'' = None"
    and "getProp tc ''error'' = None" and "getProp tc ''skipped'' = None"
    and "processTestCase cfg fs tc sn rf (rs, w) = Inr (rs', w')" and "rs' \<noteq> rs"
  shows "\<exists>r. rs' = rs @ [r]
     \<and> stack_trace r =
         XStr (''Nothing Reported'' @ [CHR 0x0A]
               @ streamLine ''System Out: '' (getProp tc ''system-out'')
               @ streamLine ''System Err: '' (getProp tc ''system-err'')
               @ concat (map propertyLine (listedProperties (getProp tc ''properties''))))"
proof -
  let ?d0 = "''Nothing Reported'' @ [CHR 0x0A]"
  let ?out = "streamLine ''System Out: '' (getProp tc ''system-out'')"
  let ?err = "streamLine ''System Err: '' (getProp tc ''system-err'')"
  let ?ps = "listedProperties (getProp tc ''properties'')"
  from assms(5,6)
  obtain tcid s d1 a1 w1 d2 a2 w2 d3 a3 l3 where
    o: "captureOutput fs rf tc ''system-out'' ''System Out: ''
              (fst (snd (statusOf tc)), [], w) = Inr (d1, a1, w1)"
    and e: "captureOutput fs rf tc ''system-err'' ''System Err: '' (d1, a1, w1) = Inr (d2, a2, w2)"
    and p: "processProperties fs rf (propertiesOf tc) (d2, a2, [], w2) = Inr (d3, a3, l3, w')"
    and r: "rs' = rs @
             [\<lparr>test_case_id = tcid, name = fullNameOf tc,
               execution_status_id = fst (snd (snd (statusOf tc))),
               stack_trace = d3, message = fst (statusOf tc),
               duration_seconds = elapsedTimeOf tc,
               assert_count = assertCountOf tc (snd (snd (snd (statusOf tc)))),
               result_test_set_id =
                 (case truthyId (test_set_ids cfg (toLowerCase s)) of
                    Some found \<Rightarrow> found | None \<Rightarrow> IntVal (- 1)),
               attachments = a3, links = l3\<rparr>]"
    by (rule processTestCase_appended)
  from o statusOf_nothing [OF assms(1-4)]
  have "captureOutput fs rf tc ''system-out'' ''System Out: '' (XStr ?d0, [], w) = Inr (d1, a1, w1)"
    by (simp add: newline_def)
  then have d1: "d1 = XStr (?d0 @ ?out)"
    by (rule captureOutput_details)
  from e d1 have d2: "d2 = XStr ((?d0 @ ?out) @ ?err)"
    by (auto dest: captureOutput_details)
  from p have "processProperties fs rf ?ps (d2, a2, [], w2) = Inr (d3, a3, l3, w')"
    by (simp add: propertiesOf_listed)
  with d2 have "d3 = XStr (((?d0 @ ?out) @ ?err) @ concat (map propertyLine ?ps))"
    by (auto dest: processProperties_details)
  with r show ?thesis
    by simp
qed

lemma tcVerbose_processed:
  "processTestCase cfgReg noFiles tcVerbose (XStr ''LIS'') ''report.xml'' ([], world0)
   = Inr ([\<lparr>test_case_id = IntVal 2, name = ''LIS.Registration.registration1'',
            execution_status_id = 2,
            stack_trace = XStr (''Nothing Reported'' @ newline
                                @ ''System Out: started'' @ newline
                                @ ''System Err: deprecated'' @ newline
                                @ ''- browser=firefox'' @ newline
                                @ ''- os=linux'' @ newline),
            message = XStr ''Success'', duration_seconds = Fin 0, assert_count = IntVal 0,
            result_test_set_id = IntVal (- 1), attachments = [], links = []\<rparr>], world0)"
  by (simp add: tcVerbose_def example_defs)

lemma tcVerbose_lines:
  "streamLine ''System Out: '' (getProp tcVerbose ''system-out'')
     = ''System Out: started'' @ [CHR 0x0A]
   \<and> streamLine ''System Err: '' (getProp tcVerbose ''system-err'')
     = ''System Err: deprecated'' @ [CHR 0x0A]
   \<and> concat (map propertyLine (listedProperties (getProp tcVerbose ''properties'')))
     = ''- browser=firefox'' @ [CHR 0x0A] @ ''- os=linux'' @ [CHR 0x0A]"
  by (simp add: tcVerbose_def streamLine_def listedProperties_def propertyLine_def
                propValueOf_def template_def orElse_def newline_def)

theorem C10_witness:
  "getProp tcVerbose ''failure'' = None \<and> getProp tcVerbose ''warning'' = None
   \<and> getProp tcVerbose ''error'' = None \<and> getProp tcVerbose ''skipped'' = None
   \<and> (\<exists>r. processTestCase cfgReg noFiles tcVerbose (XStr ''LIS'') ''report.xml'' ([], world0)
              = Inr ([r], world0)
          \<and> stack_trace r =
              XStr (''Nothing Reported'' @ [CHR 0x0A]
                    @ ''System Out: started'' @ [CHR 0x0A]
                    @ ''System Err: deprecated'' @ [CHR 0x0A]
                    @ ''- browser=firefox'' @ [CHR 0x0A]
                    @ ''- os=linux'' @ [CHR 0x0A]))"
proof -
  have n: "getProp tcVerbose ''failure'' = None" "getProp tcVerbose ''warning'' = None"
    "getProp tcVerbose ''error'' = None" "getProp tcVerbose ''skipped'' = None"
    by (simp_all add: tcVerbose_def)
  from C10_details_of_passed_case [OF n tcVerbose_processed]
  have "\<exists>r. [\<lparr>test_case_id = IntVal 2, name = ''LIS.Registration.registration1'',
            execution_status_id = 2,
            stack_trace = XStr (''Nothing Reported'' @ newline
                                @ ''System Out: started'' @ newline
                                @ ''System Err: deprecated'' @ newline
                                @ ''- browser=firefox'' @ newline
                                @ ''- os=linux'' @ newline),
            message = XStr ''Success'', duration_seconds = Fin 0, assert_count = IntVal 0,
            result_test_set_id = IntVal (- 1), attachments = [], links = []\<rparr>] = [] @ [r]
     \<and> stack_trace r =
         XStr (''Nothing Reported'' @ [CHR 0x0A]
               @ streamLine ''System Out: '' (getProp tcVerbose ''system-out'')
               @ streamLine ''System Err: '' (getProp tcVerbose ''system-err'')
               @ concat (map propertyLine (listedProperties (getProp tcVerbose ''properties''))))"
    by simp
  then obtain r where
    r: "processTestCase cfgReg noFiles tcVerbose (XStr ''LIS'') ''report.xml'' ([], world0)
          = Inr ([r], world0)"
    and s: "stack_trace r =
         XStr (''Nothing Reported'' @ [CHR 0x0A]
               @ streamLine ''System Out: '' (getProp tcVerbose ''system-out'')
               @ streamLine ''System Err: '' (getProp tcVerbose ''system-err'')
               @ concat (map propertyLine (listedProperties (getProp tcVerbose ''properties''))))"
    using tcVerbose_processed by auto
  from s tcVerbose_lines have "stack_trace r =
              XStr (''Nothing Reported'' @ [CHR 0x0A]
                    @ ''System Out: started'' @ [CHR 0x0A]
                    @ ''System Err: deprecated'' @ [CHR 0x0A]
                    @ ''- browser=firefox'' @ [CHR 0x0A]
                    @ ''- os=linux'' @ [CHR 0x0A])"
    by simp
  with n r show ?thesis
    by blast
qed

text \<open>
  Claim C10, as stated, fails. The elements \<^verbatim>\<open><system-out/>\<close>, \<^verbatim>\<open><system-err/>\<close>
  and \<^verbatim>\<open><property/>\<close> of the first case below are present, and its details are the
  first line alone, with no line \<^verbatim>\<open>System Out: \<close>, no line \<^verbatim>\<open>System Err: \<close> and no
  line of a property. The second case has two properties, each in a \<^verbatim>\<open>properties\<close>
  element of its own, and its details are the first line alone as well.
\<close>

theorem C10_counterexample:
  "getProp tcSilent ''system-out'' = Some (XStr [])
   \<and> getProp tcSilent ''system-err'' = Some (XStr [])
   \<and> getProp tcSilent ''properties'' = Some (XObj [(''property'', XStr [])])
   \<and> map stack_trace
       (resultsOf (processTestCase cfgReg noFiles tcSilent (XStr ''LIS'') ''report.xml''
                     ([], world0)))
     = [XStr (''Nothing Reported'' @ [CHR 0x0A])]
   \<and> map stack_trace
       (resultsOf (processTestCase cfgReg noFiles tcTwoBlocks (XStr ''LIS'') ''report.xml''
                     ([], world0)))
     = [XStr (''Nothing Reported'' @ [CHR 0x0A])]"
  by (simp add: tcSilent_def tcTwoBlocks_def resultsOf_def example_defs)

subsection \<open>Attachment properties\<close>

lemma captureOutput_total:
  assumes "textOrAbsent tc key"
  shows "\<exists>d' atts' w'. captureOutput fs rf tc key label (d, atts, w) = Inr (d', atts', w')"
  using assms
  by (auto simp: captureOutput_def textOrAbsent_def Let_def
           split: option.splits xval.splits prod.splits)

lemma processProperty_total:
  assumes "wellFormedProperty p"
  shows "\<exists>d' atts' lnks' w'. processProperty fs rf p (d, atts, lnks, w) = Inr (d', atts', lnks', w')"
  using assms
  by (auto simp: processProperty_def wellFormedProperty_def propValueOf_def Let_def
           split: option.splits xval.splits prod.splits if_splits)

lemma processProperties_total:
  assumes "\<forall>p \<in> set ps. wellFormedProperty p"
  shows "\<exists>d' atts' lnks' w'.
           processProperties fs rf ps (d, atts, lnks, w) = Inr (d', atts', lnks', w')"
  using assms
proof (induction ps arbitrary: d atts lnks w)
  case Nil
  then show ?case by simp
next
  case (Cons p ps)
  from Cons.prems have "wellFormedProperty p"
    by simp
  from processProperty_total [OF this, of fs rf d atts lnks w]
  obtain d1 a1 l1 w1 where "processProperty fs rf p (d, atts, lnks, w) = Inr (d1, a1, l1, w1)"
    by blast
  moreover from Cons.prems have "\<forall>q \<in> set ps. wellFormedProperty q"
    by simp
  from Cons.IH [OF this, of d1 a1 l1 w1]
  obtain d' atts' lnks' w' where
    "processProperties fs rf ps (d1, a1, l1, w1) = Inr (d', atts', lnks', w')"
    by blast
  ultimately show ?case
    by simp
qed

lemma processTestCase_total:
  assumes "truthyId (test_case_ids cfg (toLowerCase (fullNameOf tc))) = Some tcid"
    and "textOrAbsent tc ''system-out''" and "textOrAbsent tc ''system-err''"
    and "\<forall>p \<in> set (propertiesOf tc). wellFormedProperty p"
  shows "\<exists>r w'. processTestCase cfg fs tc (XStr s) rf (rs, w) = Inr (rs @ [r], w')"
proof -
  obtain msg d0 st ac where s: "statusOf tc = (msg, d0, st, ac)"
    by (cases "statusOf tc")
  from captureOutput_total [OF assms(2), of fs rf "''System Out: ''" d0 "[]" w]
  obtain d1 a1 w1 where
    o: "captureOutput fs rf tc ''system-out'' ''System Out: '' (d0, [], w) = Inr (d1, a1, w1)"
    by blast
  from captureOutput_total [OF assms(3), of fs rf "''System Err: ''" d1 a1 w1]
  obtain d2 a2 w2 where
    e: "captureOutput fs rf tc ''system-err'' ''System Err: '' (d1, a1, w1) = Inr (d2, a2, w2)"
    by blast
  from processProperties_total [OF assms(4), of fs rf d2 a2 "[]" w2]
  obtain d3 a3 l3 w3 where
    p: "processProperties fs rf (propertiesOf tc) (d2, a2, [], w2) = Inr (d3, a3, l3, w3)"
    by blast
  from assms(1) s o e p show ?thesis
    by (simp add: processTestCase_def Let_def)
qed

lemma processProperty_collect:
  assumes "processProperty fs rf p (d, atts, lnks, w) = Inr (d', atts', lnks', w')"
  shows "atts' = atts @ filesOf fs rf p \<and> lnks' = lnks @ linksOf p"
  using assms
  by (auto simp: processProperty_def propValueOf_def filesOf_def linksOf_def
                 isAttachmentProperty_def readAttachmentFile_def Let_def
           split: option.splits xval.splits prod.splits if_splits sum.splits)

lemma processProperties_collect:
  assumes "processProperties fs rf ps (d, atts, lnks, w) = Inr (d', atts', lnks', w')"
  shows "atts' = atts @ concat (map (filesOf fs rf) ps) \<and> lnks' = lnks @ concat (map linksOf ps)"
  using assms
proof (induction ps arbitrary: d atts lnks w)
  case Nil
  then show ?case by simp
next
  case (Cons p ps)
  from Cons.prems obtain d1 a1 l1 w1 where
    step: "processProperty fs rf p (d, atts, lnks, w) = Inr (d1, a1, l1, w1)"
    and rest: "processProperties fs rf ps (d1, a1, l1, w1) = Inr (d', atts', lnks', w')"
    by (auto split: sum.splits)
  from processProperty_collect [OF step] Cons.IH [OF rest] show ?case
    by simp
qed

lemma processTestCase_collect:
  assumes "processTestCase cfg fs tc sn rf (rs, w) = Inr (rs @ [r], w')"
  shows "links r = concat (map linksOf (propertiesOf tc))
     \<and> (\<exists>marked. attachments r = marked @ concat (map (filesOf fs rf) (propertiesOf tc)))"
proof -
  have "rs @ [r] \<noteq> rs"
    by simp
  with assms obtain d2 a2 w2 d3 a3 l3 r' where
    p: "processProperties fs rf (propertiesOf tc) (d2, a2, [], w2) = Inr (d3, a3, l3, w')"
    and r: "rs @ [r] = rs @ [r']" "attachments r' = a3" "links r' = l3"
    by (elim processTestCase_appended) auto
  from processProperties_collect [OF p] r show ?thesis
    by auto
qed

text \<open>
  Claim C3. A property whose name starts with \<^verbatim>\<open>attachment\<close> and whose value is a
  string adds its value to the links when the value starts with \<^verbatim>\<open>http\<close>. Otherwise
  the file of that name in the directory of the report is read and encoded in base64:
  when it can be read, the attachment is added; when it cannot, one line is logged and
  nothing is added, and the loop goes on. Whatever the files are, a case with a
  test-case id, textual output and well-formed properties is submitted; its links are
  the links of its properties, and its attachments end with the files of its
  properties that could be read.
\<close>

theorem C3_attachment_properties:
  "(getProp p ''name'' = Some (XStr pn) \<and> startsWith pn ''attachment''
      \<and> propValueOf p = XStr pv
    \<longrightarrow> processProperty fs rf p (d, atts, lnks, w) =
          Inr (XStr (toString d @ propertyLine p),
               (if startsWith pv ''http'' then atts
                else case readFileSync fs (pathJoin fs (dirname fs rf) pv) of
                       Inr fileData \<Rightarrow> atts @ [\<lparr>filename = pv, binary_data = base64 fs fileData\<rparr>]
                     | Inl msg \<Rightarrow> atts),
               (if startsWith pv ''http'' then lnks @ [pv] else lnks),
               (if startsWith pv ''http'' then w
                else case readFileSync fs (pathJoin fs (dirname fs rf) pv) of
                       Inr fileData \<Rightarrow> w
                     | Inl msg \<Rightarrow> log (unreadableLine pv msg) w)))
   \<and> (truthyId (test_case_ids cfg (toLowerCase (fullNameOf tc))) \<noteq> None
      \<and> textOrAbsent tc ''system-out'' \<and> textOrAbsent tc ''system-err''
      \<and> (\<forall>q \<in> set (propertiesOf tc). wellFormedProperty q)
    \<longrightarrow> (\<exists>r w' marked.
          processTestCase cfg fs tc (XStr s) rf (rs, w) = Inr (rs @ [r], w')
        \<and> links r = concat (map linksOf (propertiesOf tc))
        \<and> attachments r = marked @ concat (map (filesOf fs rf) (propertiesOf tc))))"
proof (intro conjI impI)
  assume "getProp p ''name'' = Some (XStr pn) \<and> startsWith pn ''attachment''
      \<and> propValueOf p = XStr pv"
  then show "processProperty fs rf p (d, atts, lnks, w) =
          Inr (XStr (toString d @ propertyLine p),
               (if startsWith pv ''http'' then atts
                else case readFileSync fs (pathJoin fs (dirname fs rf) pv) of
                       Inr fileData \<Rightarrow> atts @ [\<lparr>filename = pv, binary_data = base64 fs fileData\<rparr>]
                     | Inl msg \<Rightarrow> atts),
               (if startsWith pv ''http'' then lnks @ [pv] else lnks),
               (if startsWith pv ''http'' then w
                else case readFileSync fs (pathJoin fs (dirname fs rf) pv) of
                       Inr fileData \<Rightarrow> w
                     | Inl msg \<Rightarrow> log (unreadableLine pv msg) w))"
    by (auto simp: processProperty_def propertyLine_def propValueOf_def readAttachmentFile_def
                   unreadableLine_def Let_def
             split: sum.splits)
next
  assume a: "truthyId (test_case_ids cfg (toLowerCase (fullNameOf tc))) \<noteq> None
      \<and> textOrAbsent tc ''system-out'' \<and> textOrAbsent tc ''system-err''
      \<and> (\<forall>q \<in> set (propertiesOf tc). wellFormedProperty q)"
  then obtain tcid where "truthyId (test_case_ids cfg (toLowerCase (fullNameOf tc))) = Some tcid"
    by auto
  with a have "\<exists>r w'. processTestCase cfg fs tc (XStr s) rf (rs, w) = Inr (rs @ [r], w')"
    by (intro processTestCase_total) auto
  then obtain r w' where "processTestCase cfg fs tc (XStr s) rf (rs, w) = Inr (rs @ [r], w')"
    by blast
  with processTestCase_collect [OF this]
  show "\<exists>r w' marked.
          processTestCase cfg fs tc (XStr s) rf (rs, w) = Inr (rs @ [r], w')
        \<and> links r = concat (map linksOf (propertiesOf tc))
        \<and> attachments r = marked @ concat (map (filesOf fs rf) (propertiesOf tc))"
    by blast
qed

lemma propLink_facts:
  "getProp propLink ''name'' = Some (XStr ''attachment_1'')
   \<and> startsWith ''attachment_1'' ''attachment''
   \<and> propValueOf propLink = XStr ''http://example.com/x''
   \<and> startsWith ''http://example.com/x'' ''http''"
  by (simp add: propLink_def propValueOf_def orElse_def)

lemma propFile_facts:
  "getProp propFile ''name'' = Some (XStr ''attachment_2'')
   \<and> startsWith ''attachment_2'' ''attachment''
   \<and> propValueOf propFile = XStr ''out/log.txt''
   \<and> \<not> startsWith ''out/log.txt'' ''http''"
  by (simp add: propFile_def propValueOf_def orElse_def)

lemma tcAttachments_facts:
  "truthyId (test_case_ids cfgReg (toLowerCase (fullNameOf tcAttachments))) \<noteq> None
   \<and> textOrAbsent tcAttachments ''system-out'' \<and> textOrAbsent tcAttachments ''system-err''
   \<and> (\<forall>p \<in> set (propertiesOf tcAttachments). wellFormedProperty p)"
  by (simp add: tcAttachments_def propLink_def propFile_def textOrAbsent_def
                wellFormedProperty_def propValueOf_def example_defs)

lemma tcAttachments_contributions:
  "concat (map linksOf (propertiesOf tcAttachments)) = [''http://example.com/x'']
   \<and> concat (map (filesOf noFiles ''reports/junit.xml'') (propertiesOf tcAttachments)) = []"
  by (simp add: tcAttachments_def propLink_def propFile_def linksOf_def filesOf_def
                isAttachmentProperty_def propValueOf_def noFiles_def example_defs)

theorem C3_witness:
  "processProperty noFiles ''reports/junit.xml'' propLink (XStr [], [], [], world0)
     = Inr (XStr (propertyLine propLink), [], [''http://example.com/x''], world0)
   \<and> processProperty oneFile ''reports/junit.xml'' propFile (XStr [], [], [], world0)
     = Inr (XStr (propertyLine propFile),
            [\<lparr>filename = ''out/log.txt'', binary_data = ''b2s=''\<rparr>], [], world0)
   \<and> processProperty noFiles ''reports/junit.xml'' propFile (XStr [], [], [], world0)
     = Inr (XStr (propertyLine propFile), [], [],
            log (unreadableLine ''out/log.txt'' ''ENOENT'') world0)
   \<and> (\<exists>r w' marked.
         processTestCase cfgReg noFiles tcAttachments (XStr ''LIS'') ''reports/junit.xml''
           ([], world0) = Inr ([r], w')
       \<and> links r = [''http://example.com/x''] \<and> attachments r = marked)"
proof -
  note t = C3_attachment_properties
  from t [where p = propLink and pn = "''attachment_1''" and pv = "''http://example.com/x''"
            and fs = noFiles and rf = "''reports/junit.xml''" and d = "XStr []"
            and atts = "[]" and lnks = "[]" and w = world0] propLink_facts
  have a: "processProperty noFiles ''reports/junit.xml'' propLink (XStr [], [], [], world0)
     = Inr (XStr (propertyLine propLink), [], [''http://example.com/x''], world0)"
    by simp
  from t [where p = propFile and pn = "''attachment_2''" and pv = "''out/log.txt''"
            and fs = oneFile and rf = "''reports/junit.xml''" and d = "XStr []"
            and atts = "[]" and lnks = "[]" and w = world0] propFile_facts
  have b: "processProperty oneFile ''reports/junit.xml'' propFile (XStr [], [], [], world0)
     = Inr (XStr (propertyLine propFile),
            [\<lparr>filename = ''out/log.txt'', binary_data = ''b2s=''\<rparr>], [], world0)"
    by (simp add: oneFile_def)
  from t [where p = propFile and pn = "''attachment_2''" and pv = "''out/log.txt''"
            and fs = noFiles and rf = "''reports/junit.xml''" and d = "XStr []"
            and atts = "[]" and lnks = "[]" and w = world0] propFile_facts
  have c: "processProperty noFiles ''reports/junit.xml'' propFile (XStr [], [], [], world0)
     = Inr (XStr (propertyLine propFile), [], [],
            log (unreadableLine ''out/log.txt'' ''ENOENT'') world0)"
    by (simp add: noFiles_def)
  from t [where cfg = cfgReg and tc = tcAttachments and fs = noFiles and s = "''LIS''"
            and rf = "''reports/junit.xml''" and rs = "[]" and w = world0] tcAttachments_facts
  have "\<exists>r w' marked.
         processTestCase cfgReg noFiles tcAttachments (XStr ''LIS'') ''reports/junit.xml''
           ([], world0) = Inr ([] @ [r], w')
       \<and> links r = concat (map linksOf (propertiesOf tcAttachments))
       \<and> attachments r
           = marked @ concat (map (filesOf noFiles ''reports/junit.xml'') (propertiesOf tcAttachments))"
    by blast
  with tcAttachments_contributions
  have d: "\<exists>r w' marked.
         processTestCase cfgReg noFiles tcAttachments (XStr ''LIS'') ''reports/junit.xml''
           ([], world0) = Inr ([r], w')
       \<and> links r = [''http://example.com/x''] \<and> attachments r = marked"
    by auto
  from a b c d show ?thesis
    by blast
qed

subsection \<open>The configuration file\<close>

text \<open>
  The object the constructor sets up is the record \<open>newConfig\<close>; the object loaded
  from \<^verbatim>\<open>spira.cfg\<close> is a record as well, the one loaded from \<^verbatim>\<open>replaced.cfg\<close>, whose
  table of test cases is a string, is not.
\<close>

lemma configOf_newObject: "configOf newObject = Some newConfig"
  by (simp add: configOf_def newObject_def newConfig_def)

lemma configOf_examples:
  "configOf dupObject
     = Some (newConfig\<lparr>url := ''http://b'', test_case_ids := [''foo.bar'' \<mapsto> IntVal 2]\<rparr>)
   \<and> configOf replacedObject = None"
  by (simp add: configOf_def dupObject_def replacedObject_def newObject_def newConfig_def)

lemma loadLines_assignments: "loadLines sec obj ls = storeAll obj (assignments sec ls)"
  by (induction ls arbitrary: sec obj) (auto simp: Let_def split: list.splits sum.splits)

lemma storeAll_append:
  "storeAll obj (es1 @ es2) = (case storeAll obj es1 of Inl e \<Rightarrow> Inl e | Inr c \<Rightarrow> storeAll c es2)"
  by (induction es1 arbitrary: obj) (auto split: sum.splits)

text \<open>What a line does to the object, section by section.\<close>

lemma storeLine_credentials:
  "storeLine ''credentials'' obj k v = Inr (setField obj k (parsedValue ''credentials'' k v))"
  by (auto simp: storeLine_def parsedValue_def setField_def)

lemma putId_Inr:
  assumes "putId obj table key n = Inr obj'"
  shows "key = ''__proto__'' \<and> obj' = obj
     \<or> (\<exists>ids. key \<noteq> ''__proto__'' \<and> obj table = Some (TableField ids)
              \<and> obj' = obj(table \<mapsto> TableField (ids(key \<mapsto> n))))"
  using assms
  by (auto simp: putId_def split: option.splits fieldValue.splits if_splits)

lemma storeLine_table:
  "storeLine ''test_cases'' obj k v = putId obj ''test_case_ids'' (toLowerCase k) (parseInt v)"
  "storeLine ''test_sets'' obj k v = putId obj ''test_set_ids'' (toLowerCase k) (parseInt v)"
  by (simp_all add: storeLine_def)

lemma storeLine_ignored:
  "sec \<noteq> ''credentials'' \<Longrightarrow> sec \<noteq> ''test_cases'' \<Longrightarrow> sec \<noteq> ''test_sets''
     \<Longrightarrow> storeLine sec obj k v = Inr obj"
  by (simp add: storeLine_def)

lemma stored_section:
  "stored obj ''credentials'' k = obj k"
  "stored obj ''test_cases'' k =
     (case obj ''test_case_ids'' of
        Some (TableField ids) \<Rightarrow> map_option NumberField (ids (toLowerCase k))
      | _ \<Rightarrow> None)"
  "stored obj ''test_sets'' k =
     (case obj ''test_set_ids'' of
        Some (TableField ids) \<Rightarrow> map_option NumberField (ids (toLowerCase k))
      | _ \<Rightarrow> None)"
  by (simp_all add: stored_def)

lemma parsedValue_table:
  "sec \<noteq> ''credentials'' \<Longrightarrow> parsedValue sec k v = NumberField (parseInt v)"
  by (simp add: parsedValue_def)

lemma parsedValue_plain: "parsedValue sec k v \<noteq> TableField ids"
  by (simp add: parsedValue_def)

text \<open>A line that is stored leaves its value under its key, unless the key is ignored.\<close>

lemma storeLine_sets:
  assumes "storeLine sec obj k v = Inr obj'"
    and "sec = ''credentials'' \<or> sec = ''test_cases'' \<or> sec = ''test_sets''"
    and "\<not> ignoredKey sec k"
  shows "stored obj' sec k = Some (parsedValue sec k v)"
proof -
  consider (credentials) "sec = ''credentials''" | (test_cases) "sec = ''test_cases''"
    | (test_sets) "sec = ''test_sets''"
    using assms(2) by blast
  then show ?thesis
  proof cases
    case credentials
    with assms(1,3) show ?thesis
      by (auto simp: storeLine_credentials stored_section setField_def ignoredKey_def)
  next
    case test_cases
    with assms(3) have "toLowerCase k \<noteq> ''__proto__''"
      by (simp add: ignoredKey_def)
    with assms(1) test_cases putId_Inr [of obj "''test_case_ids''" "toLowerCase k" "parseInt v" obj']
    show ?thesis
      by (auto simp: storeLine_table stored_section parsedValue_table)
  next
    case test_sets
    with assms(3) have "toLowerCase k \<noteq> ''__proto__''"
      by (simp add: ignoredKey_def)
    with assms(1) test_sets putId_Inr [of obj "''test_set_ids''" "toLowerCase k" "parseInt v" obj']
    show ?thesis
      by (auto simp: storeLine_table stored_section parsedValue_table)
  qed
qed

text \<open>
  A line with another key, which does not replace the table either, leaves the value
  under the key as it is.
\<close>

lemma storeLine_keeps:
  assumes "storeLine sec' obj k' v' = Inr obj'"
    and "\<not> (sec' = sec \<and> sameKey sec k k')"
    and "\<not> replacesTable sec' k' sec"
    and "stored obj sec k = Some val"
    and "\<forall>ids. val \<noteq> TableField ids"
  shows "stored obj' sec k = Some val"
proof -
  have sec: "sec = ''credentials'' \<or> sec = ''test_cases'' \<or> sec = ''test_sets''"
    using assms(4) by (auto simp: stored_def split: if_splits)
  consider (credentials) "sec' = ''credentials''" | (test_cases) "sec' = ''test_cases''"
    | (test_sets) "sec' = ''test_sets''"
    | (ignored) "sec' \<noteq> ''credentials''" "sec' \<noteq> ''test_cases''" "sec' \<noteq> ''test_sets''"
    by blast
  then show ?thesis
  proof cases
    case credentials
    with assms(1) have o: "obj' = setField obj k' (parsedValue ''credentials'' k' v')"
      by (simp add: storeLine_credentials)
    from sec show ?thesis
    proof (elim disjE)
      assume s: "sec = ''credentials''"
      with credentials assms(2) have "k \<noteq> k'"
        by (simp add: sameKey_def)
      with s o assms(4) show ?thesis
        by (simp add: stored_section setField_def)
    next
      assume s: "sec = ''test_cases''"
      with credentials assms(3) have "k' \<noteq> ''test_case_ids''"
        by (simp add: replacesTable_def)
      with s o assms(4) show ?thesis
        by (simp add: stored_section setField_def)
    next
      assume s: "sec = ''test_sets''"
      with credentials assms(3) have "k' \<noteq> ''test_set_ids''"
        by (simp add: replacesTable_def)
      with s o assms(4) show ?thesis
        by (simp add: stored_section setField_def)
    qed
  next
    case test_cases
    with assms(1) have "putId obj ''test_case_ids'' (toLowerCase k') (parseInt v') = Inr obj'"
      by (simp add: storeLine_table)
    from putId_Inr [OF this] show ?thesis
    proof (elim disjE exE conjE)
      assume "obj' = obj"
      with assms(4) show ?thesis
        by simp
    next
      fix ids
      assume t: "obj ''test_case_ids'' = Some (TableField ids)"
        and o: "obj' = obj(''test_case_ids'' \<mapsto> TableField (ids(toLowerCase k' \<mapsto> parseInt v')))"
      from sec show ?thesis
      proof (elim disjE)
        assume s: "sec = ''credentials''"
        with assms(4,5) t have "k \<noteq> ''test_case_ids''"
          by (auto simp: stored_section)
        with s o assms(4) show ?thesis
          by (simp add: stored_section)
      next
        assume s: "sec = ''test_cases''"
        with test_cases assms(2) have "toLowerCase k \<noteq> toLowerCase k'"
          by (simp add: sameKey_def)
        with s o t assms(4) show ?thesis
          by (simp add: stored_section)
      next
        assume s: "sec = ''test_sets''"
        with o assms(4) show ?thesis
          by (simp add: stored_section)
      qed
    qed
  next
    case test_sets
    with assms(1) have "putId obj ''test_set_ids'' (toLowerCase k') (parseInt v') = Inr obj'"
      by (simp add: storeLine_table)
    from putId_Inr [OF this] show ?thesis
    proof (elim disjE exE conjE)
      assume "obj' = obj"
      with assms(4) show ?thesis
        by simp
    next
      fix ids
      assume t: "obj ''test_set_ids'' = Some (TableField ids)"
        and o: "obj' = obj(''test_set_ids'' \<mapsto> TableField (ids(toLowerCase k' \<mapsto> parseInt v')))"
      from sec show ?thesis
      proof (elim disjE)
        assume s: "sec = ''credentials''"
        with assms(4,5) t have "k \<noteq> ''test_set_ids''"
          by (auto simp: stored_section)
        with s o assms(4) show ?thesis
          by (simp add: stored_section)
      next
        assume s: "sec = ''test_cases''"
        with o assms(4) show ?thesis
          by (simp add: stored_section)
      next
        assume s: "sec = ''test_sets''"
        with test_sets assms(2) have "toLowerCase k \<noteq> toLowerCase k'"
          by (simp add: sameKey_def)
        with s o t assms(4) show ?thesis
          by (simp add: stored_section)
      qed
    qed
  next
    case ignored
    with assms(1) have "obj' = obj"
      by (simp add: storeLine_ignored)
    with assms(4) show ?thesis
      by simp
  qed
qed

lemma storeAll_keeps:
  assumes "storeAll obj es = Inr obj'"
    and "\<forall>(sec', k', v') \<in> set es.
           \<not> (sec' = sec \<and> sameKey sec k k') \<and> \<not> replacesTable sec' k' sec"
    and "stored obj sec k = Some val"
    and "\<forall>ids. val \<noteq> TableField ids"
  shows "stored obj' sec k = Some val"
  using assms(1,2,3)
proof (induction es arbitrary: obj)
  case Nil
  then show ?case by simp
next
  case (Cons e es)
  obtain sec' k' v' where e: "e = (sec', k', v')"
    by (cases e)
  with Cons.prems(1) obtain c where
    c: "storeLine sec' obj k' v' = Inr c" and rest: "storeAll c es = Inr obj'"
    by (auto split: sum.splits)
  from Cons.prems(2) e have "\<not> (sec' = sec \<and> sameKey sec k k')" "\<not> replacesTable sec' k' sec"
    by auto
  with c have "stored c sec k = Some val"
    using Cons.prems(3) assms(4) by (rule storeLine_keeps)
  moreover from Cons.prems(2)
  have "\<forall>(sec', k', v') \<in> set es.
           \<not> (sec' = sec \<and> sameKey sec k k') \<and> \<not> replacesTable sec' k' sec"
    by simp
  ultimately show ?case
    using rest by (intro Cons.IH)
qed

text \<open>
  Claim C9, as the code has it. Whatever the file is, when it loads, the value the
  object holds for a key of one of the sections \<^verbatim>\<open>[credentials]\<close>, \<^verbatim>\<open>[test_cases]\<close>
  and \<^verbatim>\<open>[test_sets]\<close> is the value of the last line that assigns this key in this
  section: an earlier assignment of the same key is overwritten. This holds for the
  credentials and for the two lookup tables, whose keys are compared in lower case,
  with two provisos: the key is not \<^verbatim>\<open>__proto__\<close>, and, for a key of a lookup table,
  no later line of the credentials replaces the table (\<^verbatim>\<open>test_case_ids = ...\<close> for
  \<^verbatim>\<open>[test_cases]\<close>, \<^verbatim>\<open>test_set_ids = ...\<close> for \<^verbatim>\<open>[test_sets]\<close>).
\<close>

theorem C9_last_assignment_wins:
  assumes "loadConfig fs configFile = Inr obj"
    and "readFileSync fs configFile = Inr content"
    and "assignments [] (split_str (CHR 0x0A) content) = before @ (sec, k, v) # after"
    and "sec = ''credentials'' \<or> sec = ''test_cases'' \<or> sec = ''test_sets''"
    and "\<not> ignoredKey sec k"
    and "\<forall>(sec', k', v') \<in> set after.
           \<not> (sec' = sec \<and> sameKey sec k k') \<and> \<not> replacesTable sec' k' sec"
  shows "stored obj sec k = Some (parsedValue sec k v)"
proof -
  from assms(1,2,3) have all: "storeAll newObject (before @ (sec, k, v) # after) = Inr obj"
    by (simp add: loadConfig_def loadLines_assignments)
  then obtain c1 where c1: "storeAll newObject before = Inr c1"
    and more: "storeAll c1 ((sec, k, v) # after) = Inr obj"
    by (auto simp: storeAll_append split: sum.splits)
  from more obtain c2 where c2: "storeLine sec c1 k v = Inr c2"
    and rest: "storeAll c2 after = Inr obj"
    by (auto split: sum.splits)
  from c2 assms(4,5) have "stored c2 sec k = Some (parsedValue sec k v)"
    by (rule storeLine_sets)
  with rest assms(6) show ?thesis
    by (rule storeAll_keeps) (simp add: parsedValue_plain)
qed

lemma newObject_tables:
  "newObject ''test_case_ids'' = Some (TableField Map.empty)"
  "newObject ''test_set_ids'' = Some (TableField Map.empty)"
  by (simp_all add: newObject_def)

lemma dupText_assignments:
  "assignments [] (split_str (CHR 0x0A) dupText)
   = [(''credentials'', ''url'', ''http://a''), (''credentials'', ''url'', ''http://b''),
      (''test_cases'', ''Foo.Bar'', ''1''), (''test_cases'', ''foo.bar'', ''2'')]"
  by (simp add: dupText_def string_defs)

lemma dupText_loaded: "loadConfig configFiles ''spira.cfg'' = Inr dupObject"
  by (simp add: loadConfig_def configFiles_def loadLines_assignments dupText_assignments
                storeLine_def setField_def putId_def dupObject_def newObject_tables string_defs)

theorem C9_witness:
  "loadConfig configFiles ''spira.cfg'' = Inr dupObject
   \<and> assignments [] (split_str (CHR 0x0A) dupText)
     = [(''credentials'', ''url'', ''http://a''), (''credentials'', ''url'', ''http://b''),
        (''test_cases'', ''Foo.Bar'', ''1''), (''test_cases'', ''foo.bar'', ''2'')]
   \<and> stored dupObject ''credentials'' ''url'' = Some (TextField ''http://b'')
   \<and> stored dupObject ''test_cases'' ''Foo.Bar'' = Some (NumberField (IntVal 2))"
proof -
  have r: "readFileSync configFiles ''spira.cfg'' = Inr dupText"
    by (simp add: configFiles_def)
  have a1: "assignments [] (split_str (CHR 0x0A) dupText)
     = [(''credentials'', ''url'', ''http://a'')] @ (''credentials'', ''url'', ''http://b'')
       # [(''test_cases'', ''Foo.Bar'', ''1''), (''test_cases'', ''foo.bar'', ''2'')]"
    by (simp add: dupText_assignments)
  have n1: "\<forall>(sec', k', v') \<in> set [(''test_cases'', ''Foo.Bar'', ''1''), (''test_cases'', ''foo.bar'', ''2'')].
              \<not> (sec' = ''credentials'' \<and> sameKey ''credentials'' ''url'' k')
              \<and> \<not> replacesTable sec' k' ''credentials''"
    by (simp add: replacesTable_def)
  have i1: "\<not> ignoredKey ''credentials'' ''url''"
    by (simp add: ignoredKey_def)
  have a2: "assignments [] (split_str (CHR 0x0A) dupText)
     = [(''credentials'', ''url'', ''http://a''), (''credentials'', ''url'', ''http://b''),
        (''test_cases'', ''Foo.Bar'', ''1'')] @ (''test_cases'', ''foo.bar'', ''2'') # []"
    by (simp add: dupText_assignments)
  have n2: "\<forall>(sec', k', v') \<in> set [].
              \<not> (sec' = ''test_cases'' \<and> sameKey ''test_cases'' ''foo.bar'' k')
              \<and> \<not> replacesTable sec' k' ''test_cases''"
    by simp
  have i2: "\<not> ignoredKey ''test_cases'' ''foo.bar''"
    by (simp add: ignoredKey_def string_defs)
  have "stored dupObject ''credentials'' ''url'' = Some (parsedValue ''credentials'' ''url'' ''http://b'')"
    by (rule C9_last_assignment_wins [OF dupText_loaded r a1 _ i1 n1]) simp
  moreover
  have "stored dupObject ''test_cases'' ''foo.bar'' = Some (parsedValue ''test_cases'' ''foo.bar'' ''2'')"
    by (rule C9_last_assignment_wins [OF dupText_loaded r a2 _ i2 n2]) simp
  moreover have "stored dupObject ''test_cases'' ''Foo.Bar'' = stored dupObject ''test_cases'' ''foo.bar''"
    by (simp add: stored_def dupObject_def string_defs)
  ultimately show ?thesis
    using dupText_loaded dupText_assignments by (simp add: parsedValue_def string_defs)
qed

text \<open>
  Claim C9, as stated, fails for two kinds of file. In \<^verbatim>\<open>proto.cfg\<close> the key
  \<^verbatim>\<open>__proto__\<close> is assigned twice in \<^verbatim>\<open>[test_cases]\<close>; the file loads, the object is
  the one the constructor has set up, and the table holds nothing under the key. In
  \<^verbatim>\<open>replaced.cfg\<close> the key \<^verbatim>\<open>foo.bar\<close> is assigned twice in \<^verbatim>\<open>[test_cases]\<close>; the
  file loads, and since the last line has replaced the table by the string
  \<^verbatim>\<open>none\<close>, nothing is held under the key.
\<close>

theorem C9_counterexample:
  "assignments [] (split_str (CHR 0x0A) protoText)
     = [(''test_cases'', ''__proto__'', ''5''), (''test_cases'', ''__proto__'', ''6'')]
   \<and> loadConfig configFiles ''proto.cfg'' = Inr newObject
   \<and> stored newObject ''test_cases'' ''__proto__'' = None
   \<and> assignments [] (split_str (CHR 0x0A) replacedText)
     = [(''test_cases'', ''foo.bar'', ''1''), (''test_cases'', ''foo.bar'', ''2''),
        (''credentials'', ''test_case_ids'', ''none'')]
   \<and> loadConfig configFiles ''replaced.cfg'' = Inr replacedObject
   \<and> replacedObject ''test_case_ids'' = Some (TextField ''none'')
   \<and> stored replacedObject ''test_cases'' ''foo.bar'' = None"
proof -
  have a: "assignments [] (split_str (CHR 0x0A) protoText)
     = [(''test_cases'', ''__proto__'', ''5''), (''test_cases'', ''__proto__'', ''6'')]"
    by (simp add: protoText_def string_defs)
  have b: "assignments [] (split_str (CHR 0x0A) replacedText)
     = [(''test_cases'', ''foo.bar'', ''1''), (''test_cases'', ''foo.bar'', ''2''),
        (''credentials'', ''test_case_ids'', ''none'')]"
    by (simp add: replacedText_def string_defs)
  have c: "loadConfig configFiles ''proto.cfg'' = Inr newObject"
    by (simp add: loadConfig_def configFiles_def loadLines_assignments a
                  storeLine_def putId_def newObject_tables string_defs)
  have d: "loadConfig configFiles ''replaced.cfg'' = Inr replacedObject"
    by (simp add: loadConfig_def configFiles_def loadLines_assignments b
                  storeLine_def setField_def putId_def replacedObject_def newObject_tables
                  string_defs)
  have e: "stored newObject ''test_cases'' ''__proto__'' = None"
    by (simp add: stored_def newObject_tables string_defs)
  have f: "replacedObject ''test_case_ids'' = Some (TextField ''none'')"
    "stored replacedObject ''test_cases'' ''foo.bar'' = None"
    by (simp_all add: stored_def replacedObject_def)
  from a b c d e f show ?thesis
    by simp
qed

end
